theory Spec2Isabelle
  imports Complex_Main "HOL-Library.Log_Nat" "HOL-Library.Sublist" "HOL-Library.AList"
begin

section \<open>Go strings: bytes, runes and the library functions the plugin calls\<close>

text \<open>
  A Go string is a sequence of bytes; \<^typ>\<open>string\<close> (a list of 8-bit characters) is
  the same thing.  The plugin calls \<^verbatim>\<open>strings.TrimSpace\<close>, \<^verbatim>\<open>strings.Split\<close>,
  \<^verbatim>\<open>strings.HasPrefix\<close> and \<^verbatim>\<open>strings.Contains\<close>; they are written out here
  as the Go library computes them.  \<^verbatim>\<open>TrimSpace\<close> removes Unicode white space, so it
  decodes UTF-8 at both ends of the string.
\<close>

text \<open>A rune is a Unicode code point, an \<^verbatim>\<open>int32\<close> in Go; a byte is read as its value
  \<open>0..255\<close>.\<close>

type_synonym rune = int

definition RuneError :: rune where
  "RuneError = 0xFFFD"

definition byte :: "char \<Rightarrow> int" where
  "byte c = of_char c"

definition isCont :: "char \<Rightarrow> bool" where
  "isCont c = (0x80 \<le> byte c \<and> byte c \<le> 0xBF)"

text \<open>\<^verbatim>\<open>utf8.DecodeRuneInString\<close>: the rune at the head of the string and its width in
  bytes; \<open>(RuneError, 1)\<close> for a byte that starts no well-formed encoding.\<close>

fun DecodeRune :: "string \<Rightarrow> rune \<times> nat" where
  "DecodeRune [] = (RuneError, 0)"
| "DecodeRune (c0 # s) =
     (let b0 = byte c0 in
      if b0 < 0x80 then (b0, 1)
      else if 0xC2 \<le> b0 \<and> b0 \<le> 0xDF then
        (case s of
           c1 # _ \<Rightarrow>
             if isCont c1 then ((b0 mod 32) * 64 + byte c1 mod 64, 2) else (RuneError, 1)
         | _ \<Rightarrow> (RuneError, 1))
      else if 0xE0 \<le> b0 \<and> b0 \<le> 0xEF then
        (case s of
           c1 # c2 # _ \<Rightarrow>
             if (if b0 = 0xE0 then 0xA0 else 0x80) \<le> byte c1
                \<and> byte c1 \<le> (if b0 = 0xED then 0x9F else 0xBF) \<and> isCont c2
             then ((b0 mod 16) * 4096 + (byte c1 mod 64) * 64 + byte c2 mod 64, 3)
             else (RuneError, 1)
         | _ \<Rightarrow> (RuneError, 1))
      else if 0xF0 \<le> b0 \<and> b0 \<le> 0xF4 then
        (case s of
           c1 # c2 # c3 # _ \<Rightarrow>
             if (if b0 = 0xF0 then 0x90 else 0x80) \<le> byte c1
                \<and> byte c1 \<le> (if b0 = 0xF4 then 0x8F else 0xBF) \<and> isCont c2 \<and> isCont c3
             then ((b0 mod 8) * 262144 + (byte c1 mod 64) * 4096
                   + (byte c2 mod 64) * 64 + byte c3 mod 64, 4)
             else (RuneError, 1)
         | _ \<Rightarrow> (RuneError, 1))
      else (RuneError, 1))"

text \<open>\<^verbatim>\<open>utf8.DecodeLastRuneInString\<close>: walks back over at most three bytes to the
  nearest byte that can start a rune and decodes from there; the result counts only when
  the encoding ends exactly at the end of the string.  \<open>DecodeLastRuneRev\<close> takes the
  string reversed, last byte first.\<close>

definition RuneStart :: "char \<Rightarrow> bool" where
  "RuneStart c = (\<not> isCont c)"

definition decodeTail :: "string \<Rightarrow> rune \<times> nat" where
  "decodeTail t = (case DecodeRune t of (r, n) \<Rightarrow> if n = length t then (r, n) else (RuneError, 1))"

definition DecodeLastRuneRev :: "string \<Rightarrow> rune \<times> nat" where
  "DecodeLastRuneRev rs =
     (case rs of
        [] \<Rightarrow> (RuneError, 0)
      | c # before \<Rightarrow>
          if byte c < 0x80 then (byte c, 1)
          else (case before of
                  [] \<Rightarrow> (RuneError, 1)
                | b1 # before1 \<Rightarrow>
                    if RuneStart b1 then decodeTail [b1, c]
                    else (case before1 of
                            [] \<Rightarrow> (RuneError, 1)
                          | b2 # before2 \<Rightarrow>
                              if RuneStart b2 then decodeTail [b2, b1, c]
                              else (case before2 of
                                      [] \<Rightarrow> (RuneError, 1)
                                    | b3 # _ \<Rightarrow>
                                        if RuneStart b3 then decodeTail [b3, b2, b1, c]
                                        else (RuneError, 1)))))"

definition DecodeLastRune :: "string \<Rightarrow> rune \<times> nat" where
  "DecodeLastRune s = DecodeLastRuneRev (rev s)"

text \<open>\<^verbatim>\<open>unicode.IsSpace\<close>: the Latin-1 spaces and the runes of the Unicode
  \<open>White_Space\<close> property.\<close>

definition IsSpace :: "rune \<Rightarrow> bool" where
  "IsSpace r =
     ((0x09 \<le> r \<and> r \<le> 0x0D) \<or> r = 0x20 \<or> r = 0x85 \<or> r = 0xA0 \<or> r = 0x1680
      \<or> (0x2000 \<le> r \<and> r \<le> 0x200A) \<or> r = 0x2028 \<or> r = 0x2029 \<or> r = 0x202F
      \<or> r = 0x205F \<or> r = 0x3000)"

text \<open>\<^verbatim>\<open>strings.TrimSpace\<close> is \<^verbatim>\<open>TrimRightFunc(TrimLeftFunc(s, IsSpace), IsSpace)\<close>:
  runes are removed from the front while they are spaces, then from the back.  The back
  is trimmed on the reversed string.\<close>

fun TrimLeftSpace :: "string \<Rightarrow> string" where
  "TrimLeftSpace [] = []"
| "TrimLeftSpace (c # s) =
     (case DecodeRune (c # s) of
        (r, n) \<Rightarrow> if IsSpace r then TrimLeftSpace (drop (n - 1) s) else c # s)"

fun trimRightRev :: "string \<Rightarrow> string" where
  "trimRightRev [] = []"
| "trimRightRev (c # rs) =
     (case DecodeLastRuneRev (c # rs) of
        (r, n) \<Rightarrow> if IsSpace r then trimRightRev (drop (n - 1) rs) else c # rs)"

definition TrimRightSpace :: "string \<Rightarrow> string" where
  "TrimRightSpace s = rev (trimRightRev (rev s))"

definition TrimSpace :: "string \<Rightarrow> string" where
  "TrimSpace s = TrimRightSpace (TrimLeftSpace s)"

text \<open>\<^verbatim>\<open>strings.Split(s, "\n")\<close>: the pieces between line feeds; the empty string
  gives one empty piece.\<close>

fun SplitLines :: "string \<Rightarrow> string list" where
  "SplitLines [] = [[]]"
| "SplitLines (c # s) =
     (if c = CHR 0x0A then [] # SplitLines s
      else (case SplitLines s of
              l # ls \<Rightarrow> (c # l) # ls
            | [] \<Rightarrow> [[c]]))"

definition HasPrefix :: "string \<Rightarrow> string \<Rightarrow> bool" where
  "HasPrefix s p = prefix p s"

definition Contains :: "string \<Rightarrow> string \<Rightarrow> bool" where
  "Contains s substr = sublist substr s"

section \<open>JSON text (the scanner of encoding/json)\<close>

text \<open>
  \<^verbatim>\<open>json.Unmarshal\<close> first checks that the whole input is one well-formed JSON value,
  with a scanner that reads one byte at a time, and only then decodes.  The scanner is
  modelled as Go writes it, a step function from state and byte to state, with a stack of
  the arrays and objects that are open; here the steps also collect the value read, so that
  a run that ends well yields the document's tree.  Strings and numbers are kept as the
  text that stood in the input.
\<close>

datatype json =
  JNull
| JBool bool
| JNumber string
| JString string
| JArray "json list"
| JObject "(string \<times> json) list"

text \<open>The stack (Go: \<^verbatim>\<open>parseState\<close>).  A frame holds the members read so far, last
  first, and says what the scanner is waiting for inside that array or object.\<close>

datatype frame =
  ObjKey "(string \<times> json) list"
| ObjColon "(string \<times> json) list" string
| ObjValue "(string \<times> json) list" string
| ObjComma "(string \<times> json) list"
| ArrValue "json list"
| ArrComma "json list"

datatype numState = SNeg | S0 | S1 | SDot | SDot0 | SE | SESign | SE0

datatype step =
  BeginValue
| BeginValueOrEmpty
| BeginStringOrEmpty
| BeginString
| EndValue
| EndTop json
| InString string
| InStringEsc string
| InStringEscU nat string
| InNumber numState string
| InLiteral string json
| ScanError

datatype scanner = Scanner step "frame list"

definition maxNestingDepth :: int where
  "maxNestingDepth = 10000"

definition isSpaceJSON :: "char \<Rightarrow> bool" where
  "isSpaceJSON c = (c = CHR '' '' \<or> c = CHR 0x09 \<or> c = CHR 0x0D \<or> c = CHR 0x0A)"

definition isDigit :: "char \<Rightarrow> bool" where
  "isDigit c = (c \<in> set ''0123456789'')"

definition isDigit19 :: "char \<Rightarrow> bool" where
  "isDigit19 c = (c \<in> set ''123456789'')"

definition isHex :: "char \<Rightarrow> bool" where
  "isHex c = (c \<in> set ''0123456789abcdefABCDEF'')"

definition scanError :: scanner where
  "scanError = Scanner ScanError []"

text \<open>A value is complete: it becomes the document, a key, a member or an element.\<close>

definition endValueWith :: "json \<Rightarrow> frame list \<Rightarrow> scanner" where
  "endValueWith v st =
     (case st of
        [] \<Rightarrow> Scanner (EndTop v) []
      | ObjKey ms # st' \<Rightarrow>
          (case v of JString k \<Rightarrow> Scanner EndValue (ObjColon ms k # st') | _ \<Rightarrow> scanError)
      | ObjValue ms k # st' \<Rightarrow> Scanner EndValue (ObjComma ((k, v) # ms) # st')
      | ArrValue vs # st' \<Rightarrow> Scanner EndValue (ArrComma (v # vs) # st')
      | _ \<Rightarrow> scanError)"

text \<open>\<^verbatim>\<open>stateEndValue\<close> and \<^verbatim>\<open>stateEndTop\<close>: after a value.\<close>

definition stateEndValue :: "scanner \<Rightarrow> char \<Rightarrow> scanner" where
  "stateEndValue sc c =
     (case sc of
        Scanner (EndTop v) st \<Rightarrow> if isSpaceJSON c then Scanner (EndTop v) st else scanError
      | Scanner EndValue st \<Rightarrow>
          if isSpaceJSON c then Scanner EndValue st
          else (case st of
                  ObjColon ms k # st' \<Rightarrow>
                    if c = CHR '':'' then Scanner BeginValue (ObjValue ms k # st') else scanError
                | ObjComma ms # st' \<Rightarrow>
                    if c = CHR '','' then Scanner BeginString (ObjKey ms # st')
                    else if c = CHR ''}'' then endValueWith (JObject (rev ms)) st'
                    else scanError
                | ArrComma vs # st' \<Rightarrow>
                    if c = CHR '','' then Scanner BeginValue (ArrValue vs # st')
                    else if c = CHR '']'' then endValueWith (JArray (rev vs)) st'
                    else scanError
                | _ \<Rightarrow> scanError)
      | _ \<Rightarrow> scanError)"

text \<open>\<^verbatim>\<open>pushParseState\<close>: opening an array or object fails beyond the nesting limit.\<close>

definition pushParseState :: "frame \<Rightarrow> frame list \<Rightarrow> step \<Rightarrow> scanner" where
  "pushParseState f st successState =
     (if int (length (f # st)) \<le> maxNestingDepth then Scanner successState (f # st)
      else scanError)"

definition stateBeginValue :: "frame list \<Rightarrow> char \<Rightarrow> scanner" where
  "stateBeginValue st c =
     (if isSpaceJSON c then Scanner BeginValue st
      else if c = CHR ''{'' then pushParseState (ObjKey []) st BeginStringOrEmpty
      else if c = CHR ''['' then pushParseState (ArrValue []) st BeginValueOrEmpty
      else if c = CHR 0x22 then Scanner (InString []) st
      else if c = CHR ''-'' then Scanner (InNumber SNeg [c]) st
      else if c = CHR ''0'' then Scanner (InNumber S0 [c]) st
      else if c = CHR ''t'' then Scanner (InLiteral ''rue'' (JBool True)) st
      else if c = CHR ''f'' then Scanner (InLiteral ''alse'' (JBool False)) st
      else if c = CHR ''n'' then Scanner (InLiteral ''ull'' JNull) st
      else if isDigit19 c then Scanner (InNumber S1 [c]) st
      else scanError)"

definition stateBeginString :: "frame list \<Rightarrow> char \<Rightarrow> scanner" where
  "stateBeginString st c =
     (if isSpaceJSON c then Scanner BeginString st
      else if c = CHR 0x22 then Scanner (InString []) st
      else scanError)"

text \<open>Inside a number.  The text read so far is kept reversed.  A byte that cannot continue
  a complete number ends it and is then read in the state after a value.\<close>

definition endNumber :: "string \<Rightarrow> frame list \<Rightarrow> char \<Rightarrow> scanner" where
  "endNumber acc st c = stateEndValue (endValueWith (JNumber (rev acc)) st) c"

definition stateNumber :: "numState \<Rightarrow> string \<Rightarrow> frame list \<Rightarrow> char \<Rightarrow> scanner" where
  "stateNumber ns acc st c =
     (case ns of
        SNeg \<Rightarrow>
          if c = CHR ''0'' then Scanner (InNumber S0 (c # acc)) st
          else if isDigit19 c then Scanner (InNumber S1 (c # acc)) st
          else scanError
      | S1 \<Rightarrow>
          if isDigit c then Scanner (InNumber S1 (c # acc)) st
          else if c = CHR ''.'' then Scanner (InNumber SDot (c # acc)) st
          else if c = CHR ''e'' \<or> c = CHR ''E'' then Scanner (InNumber SE (c # acc)) st
          else endNumber acc st c
      | S0 \<Rightarrow>
          if c = CHR ''.'' then Scanner (InNumber SDot (c # acc)) st
          else if c = CHR ''e'' \<or> c = CHR ''E'' then Scanner (InNumber SE (c # acc)) st
          else endNumber acc st c
      | SDot \<Rightarrow> if isDigit c then Scanner (InNumber SDot0 (c # acc)) st else scanError
      | SDot0 \<Rightarrow>
          if isDigit c then Scanner (InNumber SDot0 (c # acc)) st
          else if c = CHR ''e'' \<or> c = CHR ''E'' then Scanner (InNumber SE (c # acc)) st
          else endNumber acc st c
      | SE \<Rightarrow>
          if c = CHR ''+'' \<or> c = CHR ''-'' then Scanner (InNumber SESign (c # acc)) st
          else if isDigit c then Scanner (InNumber SE0 (c # acc)) st
          else scanError
      | SESign \<Rightarrow> if isDigit c then Scanner (InNumber SE0 (c # acc)) st else scanError
      | SE0 \<Rightarrow>
          if isDigit c then Scanner (InNumber SE0 (c # acc)) st else endNumber acc st c)"

text \<open>One step of the scanner (Go: \<^verbatim>\<open>s.step(s, c)\<close>).\<close>

definition scanStep :: "scanner \<Rightarrow> char \<Rightarrow> scanner" where
  "scanStep sc c =
     (case sc of
        Scanner BeginValue st \<Rightarrow> stateBeginValue st c
      | Scanner BeginValueOrEmpty st \<Rightarrow>
          if isSpaceJSON c then Scanner BeginValueOrEmpty st
          else if c = CHR '']'' then
            (case st of ArrValue vs # st' \<Rightarrow> endValueWith (JArray (rev vs)) st' | _ \<Rightarrow> scanError)
          else stateBeginValue st c
      | Scanner BeginStringOrEmpty st \<Rightarrow>
          if isSpaceJSON c then Scanner BeginStringOrEmpty st
          else if c = CHR ''}'' then
            (case st of ObjKey ms # st' \<Rightarrow> endValueWith (JObject (rev ms)) st' | _ \<Rightarrow> scanError)
          else stateBeginString st c
      | Scanner BeginString st \<Rightarrow> stateBeginString st c
      | Scanner EndValue st \<Rightarrow> stateEndValue sc c
      | Scanner (EndTop v) st \<Rightarrow> stateEndValue sc c
      | Scanner (InString acc) st \<Rightarrow>
          if c = CHR 0x22 then endValueWith (JString (rev acc)) st
          else if c = CHR 0x5C then Scanner (InStringEsc (c # acc)) st
          else if byte c < 0x20 then scanError
          else Scanner (InString (c # acc)) st
      | Scanner (InStringEsc acc) st \<Rightarrow>
          if c \<in> set [CHR ''b'', CHR ''f'', CHR ''n'', CHR ''r'', CHR ''t'', CHR 0x5C, CHR ''/'', CHR 0x22]
          then Scanner (InString (c # acc)) st
          else if c = CHR ''u'' then Scanner (InStringEscU 0 (c # acc)) st
          else scanError
      | Scanner (InStringEscU n acc) st \<Rightarrow>
          if isHex c
          then (if n = 3 then Scanner (InString (c # acc)) st
                else Scanner (InStringEscU (Suc n) (c # acc)) st)
          else scanError
      | Scanner (InNumber ns acc) st \<Rightarrow> stateNumber ns acc st c
      | Scanner (InLiteral rest v) st \<Rightarrow>
          (case rest of
             [] \<Rightarrow> scanError
           | x # xs \<Rightarrow>
               if c = x then (if xs = [] then endValueWith v st else Scanner (InLiteral xs v) st)
               else scanError)
      | Scanner ScanError st \<Rightarrow> scanError)"

text \<open>\<^verbatim>\<open>checkValid\<close>: every byte is stepped, then the end of input is reported as Go's
  \<^verbatim>\<open>eof\<close> does, by one more step on a space; the input is valid when the scanner then
  stands after the top-level value.\<close>

definition scanEOF :: "scanner \<Rightarrow> json option" where
  "scanEOF sc = (case scanStep sc (CHR '' '') of Scanner (EndTop v) st \<Rightarrow> Some v | _ \<Rightarrow> None)"

definition parseJSON :: "string \<Rightarrow> json option" where
  "parseJSON s = scanEOF (foldl scanStep (Scanner BeginValue []) s)"

definition checkValid :: "string \<Rightarrow> bool" where
  "checkValid s = (parseJSON s \<noteq> None)"

section \<open>Configuration and authentication mode (config.go)\<close>

record Config =
  Prompt :: string
  Target :: string
  Model :: string
  OutputFormat :: string
  Yolo :: bool
  ApprovalMode :: string
  IncludeDirs :: string
  Debug :: bool
  Timeout :: int
  GitDiff :: bool
  GitCommitSHA :: string
  StdinInput :: string
  APIKey :: string
  GCPProject :: string
  GCPLocation :: string
  GCPCredentials :: string

datatype AuthMode = AuthModeNone | AuthModeGeminiAPIKey | AuthModeVertexAI

definition DetectAuthMode :: "Config \<Rightarrow> AuthMode" where
  "DetectAuthMode c =
     (if APIKey c \<noteq> [] \<and> GCPProject c \<noteq> [] then AuthModeVertexAI
      else if GCPCredentials c \<noteq> [] \<and> GCPProject c \<noteq> [] then AuthModeVertexAI
      else if APIKey c \<noteq> [] then AuthModeGeminiAPIKey
      else AuthModeNone)"

section \<open>The process environment (what the operating system answers)\<close>

text \<open>
  \<open>Execute\<close> and \<open>buildEnv\<close> read the ambient environment, create a temporary file,
  resolve a path against the working directory and run the external tool.  None of this is
  computed by the plugin, so the answers are fields of a record that the model takes as an
  argument:
  \<^item> \<open>Environ\<close>: \<^verbatim>\<open>os.Environ()\<close>;
  \<^item> \<open>CreateTemp\<close>: the name of the file made by \<^verbatim>\<open>os.CreateTemp("", "gcp-credentials-*.json")\<close>,
    \<open>None\<close> when it returns an error;
  \<^item> \<open>Abs\<close>: \<^verbatim>\<open>filepath.Abs\<close>, \<open>None\<close> when it returns an error;
  \<^item> \<open>RunGemini\<close>: what running \<^verbatim>\<open>gemini\<close> with the given arguments, environment, working
    directory, standard input and timeout (in seconds) produced.
\<close>

datatype RunError =
  ExitError int string
| OtherRunError string

record ProcessOutcome =
  runErr :: "RunError option"
  deadlineExceeded :: bool
  stdout :: string
  stderr :: string

record World =
  Environ :: "string list"
  CreateTemp :: "string option"
  Abs :: "string \<Rightarrow> string option"
  RunGemini :: "string list \<Rightarrow> string list \<Rightarrow> string \<Rightarrow> string option \<Rightarrow> int \<Rightarrow> ProcessOutcome"

text \<open>\<^verbatim>\<open>filepath.IsAbs\<close> on the platform the images are built for (\<^verbatim>\<open>GOOS=linux\<close>).\<close>

definition IsAbs :: "string \<Rightarrow> bool" where
  "IsAbs path = HasPrefix path ''/''"

section \<open>Environment and argument construction (cli\_executor.go)\<close>

definition credentialsPath :: "World \<Rightarrow> Config \<Rightarrow> string" where
  "credentialsPath w c =
     (let credPath = GCPCredentials c;
          credPath =
            (if HasPrefix (TrimSpace (GCPCredentials c)) ''{''
             then (case CreateTemp w of Some name \<Rightarrow> name | None \<Rightarrow> credPath)
             else credPath);
          credPath =
            (if \<not> IsAbs credPath
             then (case Abs w credPath of Some absPath \<Rightarrow> absPath | None \<Rightarrow> credPath)
             else credPath)
      in credPath)"

definition buildEnv :: "World \<Rightarrow> Config \<Rightarrow> string list" where
  "buildEnv w c =
     (let env = Environ w in
      case DetectAuthMode c of
        AuthModeGeminiAPIKey \<Rightarrow> env @ [''GEMINI_API_KEY='' @ APIKey c]
      | AuthModeVertexAI \<Rightarrow>
          (let env = env @ [''GOOGLE_GENAI_USE_VERTEXAI=true''];
               env = (if GCPProject c \<noteq> []
                      then env @ [''GOOGLE_CLOUD_PROJECT='' @ GCPProject c] else env);
               env = (if GCPLocation c \<noteq> []
                      then env @ [''GOOGLE_CLOUD_LOCATION='' @ GCPLocation c] else env);
               env = (if APIKey c \<noteq> []
                      then env @ [''GOOGLE_API_KEY='' @ APIKey c] else env);
               env = (if GCPCredentials c \<noteq> []
                      then env @ [''GOOGLE_APPLICATION_CREDENTIALS='' @ credentialsPath w c]
                      else env)
           in env)
      | AuthModeNone \<Rightarrow> env)"

definition buildArgs :: "Config \<Rightarrow> string \<Rightarrow> string list" where
  "buildArgs c prompt =
     (let args = [];
          args = args @ [''--prompt'', prompt];
          args = (if OutputFormat c \<noteq> []
                  then args @ [''--output-format'', OutputFormat c] else args);
          args = (if Model c \<noteq> [] then args @ [''--model'', Model c] else args);
          args = (if Yolo c then args @ [''--yolo''] else args);
          args = (if ApprovalMode c \<noteq> []
                  then args @ [''--approval-mode'', ApprovalMode c] else args);
          args = (if IncludeDirs c \<noteq> []
                  then args @ [''--include-directories'', IncludeDirs c] else args);
          args = (if Debug c then args @ [''--debug''] else args)
      in args)"

text \<open>The entries \<open>buildEnv\<close> adds after the inherited environment, and whether a list of
  \<open>NAME=value\<close> entries sets a variable.\<close>

definition envOverrides :: "World \<Rightarrow> Config \<Rightarrow> string list" where
  "envOverrides w c = drop (length (Environ w)) (buildEnv w c)"

definition setsVar :: "string \<Rightarrow> string list \<Rightarrow> bool" where
  "setsVar name env = list_ex (\<lambda>entry. prefix (name @ ''='') entry) env"

text \<open>The argument vector as section 4.2 of the specification describes it: seven flags in a
  fixed order, each with the condition under which it is emitted and the arguments it
  contributes.\<close>

definition flagTable :: "Config \<Rightarrow> string \<Rightarrow> (bool \<times> string list) list" where
  "flagTable c prompt =
     [(True, [''--prompt'', prompt]),
      (OutputFormat c \<noteq> [], [''--output-format'', OutputFormat c]),
      (Model c \<noteq> [], [''--model'', Model c]),
      (Yolo c, [''--yolo'']),
      (ApprovalMode c \<noteq> [], [''--approval-mode'', ApprovalMode c]),
      (IncludeDirs c \<noteq> [], [''--include-directories'', IncludeDirs c]),
      (Debug c, [''--debug''])]"

definition specArgs :: "Config \<Rightarrow> string \<Rightarrow> string list" where
  "specArgs c prompt = concat (map snd (filter fst (flagTable c prompt)))"

section \<open>Binary64 arithmetic\<close>

text \<open>
  Go's \<^verbatim>\<open>float64\<close> is IEEE 754 binary64.  A finite value is the rational it denotes; every
  operation computes the exact result and rounds it to the nearest representable value, ties
  to even, overflowing to an infinity at \<open>2^1024\<close>.  The two zeros are one value here: they
  compare equal in Go, and only a division by zero tells them apart, which the cost formula
  (it divides by 1000000) never performs.  Each operation is rounded on its own, as the
  compiler does on amd64.
\<close>

datatype float64 = Fin rat | PInf | NInf | NaN

definition pow2 :: "int \<Rightarrow> rat" where
  "pow2 e = (if 0 \<le> e then of_int (2 ^ nat e) else 1 / of_int (2 ^ nat (- e)))"

text \<open>The exponent \<open>e\<close> with \<open>2^e \<le> x < 2^(e+1)\<close>, for \<open>x > 0\<close>.\<close>

definition ilog2 :: "rat \<Rightarrow> int" where
  "ilog2 x =
     (case quotient_of x of
        (p, q) \<Rightarrow> (let d = bitlen p - bitlen q in if pow2 d \<le> x then d else d - 1))"

definition roundEven :: "rat \<Rightarrow> int" where
  "roundEven x =
     (let f = \<lfloor>x\<rfloor>; r = x - of_int f
      in if r < 1 / 2 then f else if 1 / 2 < r then f + 1 else if even f then f else f + 1)"

definition round64 :: "rat \<Rightarrow> float64" where
  "round64 x =
     (if x = 0 then Fin 0
      else (let a = \<bar>x\<bar>;
                e = max (ilog2 a) (- 1022);
                q = e - 52;
                y = of_int (roundEven (a / pow2 q)) * pow2 q
            in if pow2 1024 \<le> y then (if 0 < x then PInf else NInf)
               else Fin (if 0 < x then y else - y)))"

fun fadd :: "float64 \<Rightarrow> float64 \<Rightarrow> float64" where
  "fadd (Fin a) (Fin b) = round64 (a + b)"
| "fadd NaN _ = NaN"
| "fadd _ NaN = NaN"
| "fadd PInf NInf = NaN"
| "fadd NInf PInf = NaN"
| "fadd PInf _ = PInf"
| "fadd NInf _ = NInf"
| "fadd _ PInf = PInf"
| "fadd _ NInf = NInf"

definition fneg :: "float64 \<Rightarrow> float64" where
  "fneg x = (case x of Fin a \<Rightarrow> Fin (- a) | PInf \<Rightarrow> NInf | NInf \<Rightarrow> PInf | NaN \<Rightarrow> NaN)"

definition infTimes :: "float64 \<Rightarrow> float64" where
  "infTimes x =
     (case x of
        Fin a \<Rightarrow> if a = 0 then NaN else if 0 < a then PInf else NInf
      | PInf \<Rightarrow> PInf
      | NInf \<Rightarrow> NInf
      | NaN \<Rightarrow> NaN)"

fun fmul :: "float64 \<Rightarrow> float64 \<Rightarrow> float64" where
  "fmul (Fin a) (Fin b) = round64 (a * b)"
| "fmul NaN _ = NaN"
| "fmul _ NaN = NaN"
| "fmul PInf y = infTimes y"
| "fmul NInf y = fneg (infTimes y)"
| "fmul x PInf = infTimes x"
| "fmul x NInf = fneg (infTimes x)"

fun fdiv :: "float64 \<Rightarrow> float64 \<Rightarrow> float64" where
  "fdiv (Fin a) (Fin b) = (if b = 0 then infTimes (Fin a) else round64 (a / b))"
| "fdiv NaN _ = NaN"
| "fdiv _ NaN = NaN"
| "fdiv (Fin a) _ = Fin 0"
| "fdiv PInf (Fin b) = (if b < 0 then NInf else PInf)"
| "fdiv NInf (Fin b) = (if b < 0 then PInf else NInf)"
| "fdiv _ _ = NaN"

text \<open>A constant of the source (\<open>0.075\<close>) is the nearest binary64 value; so is the conversion
  \<^verbatim>\<open>float64(n)\<close> of an integer.\<close>

definition f64 :: "rat \<Rightarrow> float64" where
  "f64 x = round64 x"

definition float64_of_int :: "int \<Rightarrow> float64" where
  "float64_of_int n = round64 (of_int n)"

section \<open>The response model (output\_parser.go)\<close>

text \<open>Go's \<^verbatim>\<open>int\<close> is 64 bits wide on the platforms the images are built for; the
  decoder below refuses a number outside that range, so the fields are integers.  A Go map
  is a list of entries with distinct keys, in the order in which the keys were first
  stored (the plugin only reads its maps, so the nil map and the empty map are both the
  empty list); a pointer is an option.\<close>

record APIStats =
  TotalRequests :: int
  TotalErrors :: int
  TotalLatencyMs :: int

record TokenStats =
  Prompt :: int
  Candidates :: int
  Total :: int
  Cached :: int
  Thoughts :: int
  Tool :: int

record ModelStats =
  API :: APIStats
  Tokens :: TokenStats

record ToolDecisions =
  Accept :: int
  Reject :: int
  Modify :: int
  AutoAccept :: int

record ToolDetail =
  Count :: int
  Success :: int
  Fail :: int
  DurationMs :: int
  Decisions :: ToolDecisions

record ToolStats =
  TotalCalls :: int
  TotalSuccess :: int
  TotalFail :: int
  TotalDurationMs :: int
  TotalDecisions :: ToolDecisions
  ByName :: "(string \<times> ToolDetail) list"

record FileStats =
  TotalLinesAdded :: int
  TotalLinesRemoved :: int

record CLIStats =
  Models :: "(string \<times> ModelStats) list"
  Tools :: ToolStats
  Files :: FileStats

record CLIError =
  Type :: string
  Message :: string
  Code :: int

record CLIResponse =
  Response :: string
  Stats :: "CLIStats option"
  Error :: "CLIError option"

text \<open>A value of type \<^verbatim>\<open>interface{}\<close> as the decoder fills it.\<close>

datatype go_value =
  GoNil
| GoBool bool
| GoFloat float64
| GoString string
| GoSlice "go_value list"
| GoMap "(string \<times> go_value) list"

record StreamEvent =
  Type :: string
  Timestamp :: string
  SessionID :: string
  Model :: string
  Role :: string
  Content :: string
  Delta :: bool
  ToolName :: string
  ToolID :: string
  Parameters :: "(string \<times> go_value) list"
  Status :: string
  Output :: string
  Stats :: "CLIStats option"

text \<open>The zero values.\<close>

definition zero_APIStats :: APIStats where
  "zero_APIStats = \<lparr>TotalRequests = 0, TotalErrors = 0, TotalLatencyMs = 0\<rparr>"

definition zero_TokenStats :: TokenStats where
  "zero_TokenStats =
     \<lparr>Prompt = 0, Candidates = 0, Total = 0, Cached = 0, Thoughts = 0, Tool = 0\<rparr>"

definition zero_ModelStats :: ModelStats where
  "zero_ModelStats = \<lparr>API = zero_APIStats, Tokens = zero_TokenStats\<rparr>"

definition zero_ToolDecisions :: ToolDecisions where
  "zero_ToolDecisions = \<lparr>Accept = 0, Reject = 0, Modify = 0, AutoAccept = 0\<rparr>"

definition zero_ToolDetail :: ToolDetail where
  "zero_ToolDetail =
     \<lparr>Count = 0, Success = 0, Fail = 0, DurationMs = 0, Decisions = zero_ToolDecisions\<rparr>"

definition zero_ToolStats :: ToolStats where
  "zero_ToolStats =
     \<lparr>TotalCalls = 0, TotalSuccess = 0, TotalFail = 0, TotalDurationMs = 0,
      TotalDecisions = zero_ToolDecisions, ByName = []\<rparr>"

definition zero_FileStats :: FileStats where
  "zero_FileStats = \<lparr>TotalLinesAdded = 0, TotalLinesRemoved = 0\<rparr>"

definition zero_CLIStats :: CLIStats where
  "zero_CLIStats = \<lparr>Models = [], Tools = zero_ToolStats, Files = zero_FileStats\<rparr>"

definition zero_CLIError :: CLIError where
  "zero_CLIError = \<lparr>CLIError.Type = [], Message = [], Code = 0\<rparr>"

definition zero_CLIResponse :: CLIResponse where
  "zero_CLIResponse = \<lparr>Response = [], CLIResponse.Stats = None, Error = None\<rparr>"

definition zero_StreamEvent :: StreamEvent where
  "zero_StreamEvent =
     \<lparr>StreamEvent.Type = [], Timestamp = [], SessionID = [], Model = [], Role = [],
      Content = [], Delta = False, ToolName = [], ToolID = [], Parameters = [], Status = [],
      Output = [], StreamEvent.Stats = None\<rparr>"

section \<open>Decoding JSON into the response model (encoding/json)\<close>

subsection \<open>String and number literals\<close>

text \<open>\<^verbatim>\<open>utf8.AppendRune\<close>: the encoding of a rune; the replacement character stands for
  a surrogate and for a value outside Unicode.\<close>

definition EncodeRune :: "rune \<Rightarrow> string" where
  "EncodeRune r =
     (if r < 0 \<or> 0x10FFFF < r \<or> (0xD800 \<le> r \<and> r \<le> 0xDFFF) then [CHR 0xEF, CHR 0xBF, CHR 0xBD]
      else if r < 0x80 then [char_of r]
      else if r < 0x800 then [char_of (0xC0 + r div 64), char_of (0x80 + r mod 64)]
      else if r < 0x10000 then
        [char_of (0xE0 + r div 4096), char_of (0x80 + (r div 64) mod 64), char_of (0x80 + r mod 64)]
      else
        [char_of (0xF0 + r div 262144), char_of (0x80 + (r div 4096) mod 64),
         char_of (0x80 + (r div 64) mod 64), char_of (0x80 + r mod 64)])"

definition hexVal :: "char \<Rightarrow> int" where
  "hexVal c =
     (if isDigit c then byte c - 0x30
      else if c \<in> set ''abcdef'' then byte c - 0x61 + 10
      else byte c - 0x41 + 10)"

definition hex4 :: "char \<Rightarrow> char \<Rightarrow> char \<Rightarrow> char \<Rightarrow> rune" where
  "hex4 a b c d = ((hexVal a * 16 + hexVal b) * 16 + hexVal c) * 16 + hexVal d"

definition IsSurrogate :: "rune \<Rightarrow> bool" where
  "IsSurrogate r = (0xD800 \<le> r \<and> r < 0xE000)"

text \<open>\<^verbatim>\<open>utf16.DecodeRune\<close>: the code point of a surrogate pair, the replacement character
  for anything else.\<close>

definition DecodeRune16 :: "rune \<Rightarrow> rune \<Rightarrow> rune" where
  "DecodeRune16 r1 r2 =
     (if 0xD800 \<le> r1 \<and> r1 < 0xDC00 \<and> 0xDC00 \<le> r2 \<and> r2 < 0xE000
      then (r1 - 0xD800) * 1024 + (r2 - 0xDC00) + 0x10000
      else RuneError)"

definition escapeChar :: "char \<Rightarrow> char" where
  "escapeChar e =
     (if e = CHR ''b'' then CHR 0x08
      else if e = CHR ''f'' then CHR 0x0C
      else if e = CHR ''n'' then CHR 0x0A
      else if e = CHR ''r'' then CHR 0x0D
      else if e = CHR ''t'' then CHR 0x09
      else e)"

text \<open>\<^verbatim>\<open>getu4\<close> on the text after a first \<open>\u\<close> escape: the value of a second \<open>\u\<close>
  escape standing there, \<open>-1\<close> when there is none.\<close>

definition getu4 :: "string \<Rightarrow> rune" where
  "getu4 s =
     (case s of
        b # u # h1 # h2 # h3 # h4 # _ \<Rightarrow>
          if b = CHR 0x5C \<and> u = CHR ''u'' \<and> isHex h1 \<and> isHex h2 \<and> isHex h3 \<and> isHex h4
          then hex4 h1 h2 h3 h4 else - 1
      | _ \<Rightarrow> - 1)"

text \<open>\<^verbatim>\<open>unquoteBytes\<close>, on the text between the quotes of a string the scanner accepted:
  escapes are replaced, surrogate pairs joined, and every byte that is not part of a
  well-formed UTF-8 encoding becomes the replacement character.\<close>

fun unquote :: "string \<Rightarrow> string" where
  "unquote [] = []"
| "unquote (c # s) =
     (if c = CHR 0x5C then
        (case s of
           [] \<Rightarrow> []
         | e # s1 \<Rightarrow>
             if e = CHR ''u'' then
               (case s1 of
                  h1 # h2 # h3 # h4 # s2 \<Rightarrow>
                    if IsSurrogate (hex4 h1 h2 h3 h4) then
                      (if DecodeRune16 (hex4 h1 h2 h3 h4) (getu4 s2) \<noteq> RuneError
                       then EncodeRune (DecodeRune16 (hex4 h1 h2 h3 h4) (getu4 s2))
                              @ unquote (drop 6 s2)
                       else EncodeRune RuneError @ unquote s2)
                    else EncodeRune (hex4 h1 h2 h3 h4) @ unquote s2
                | _ \<Rightarrow> [])
             else escapeChar e # unquote s1)
      else if byte c < 0x80 then c # unquote s
      else (case DecodeRune (c # s) of (r, n) \<Rightarrow> EncodeRune r @ unquote (drop (n - 1) s)))"

text \<open>\<^verbatim>\<open>strconv.ParseInt(s, 10, 64)\<close> on a number literal: the value when the literal is
  an optional sign and digits and lies in the 64-bit range.\<close>

fun digitsValue :: "string \<Rightarrow> int \<Rightarrow> int option" where
  "digitsValue [] acc = Some acc"
| "digitsValue (c # s) acc =
     (if isDigit c then digitsValue s (acc * 10 + (byte c - 0x30)) else None)"

definition ParseInt64 :: "string \<Rightarrow> int option" where
  "ParseInt64 lit =
     (case (case lit of
              [] \<Rightarrow> None
            | c # ds \<Rightarrow>
                if c = CHR ''-'' then map_option uminus (digitsValue ds 0)
                else digitsValue lit 0) of
        None \<Rightarrow> None
      | Some n \<Rightarrow> if - (2 ^ 63) \<le> n \<and> n < 2 ^ 63 then Some n else None)"

text \<open>The rational a number literal denotes, and \<^verbatim>\<open>strconv.ParseFloat(s, 64)\<close>, which
  rounds it and reports a range error when the result is infinite.\<close>

definition digitsNat :: "string \<Rightarrow> int" where
  "digitsNat ds = foldl (\<lambda>acc c. acc * 10 + (byte c - 0x30)) 0 ds"

definition pow10 :: "int \<Rightarrow> rat" where
  "pow10 e = (if 0 \<le> e then of_int (10 ^ nat e) else 1 / of_int (10 ^ nat (- e)))"

definition numberValue :: "string \<Rightarrow> rat" where
  "numberValue lit =
     (let negative = (case lit of c # _ \<Rightarrow> c = CHR ''-'' | [] \<Rightarrow> False);
          body = (if negative then tl lit else lit);
          intPart = takeWhile isDigit body;
          rest = dropWhile isDigit body;
          fracPart = (case rest of c # r \<Rightarrow> if c = CHR ''.'' then takeWhile isDigit r else []
                      | [] \<Rightarrow> []);
          rest = (case rest of c # r \<Rightarrow> if c = CHR ''.'' then dropWhile isDigit r else rest
                  | [] \<Rightarrow> []);
          exponent =
            (case rest of
               [] \<Rightarrow> 0
             | _ # r \<Rightarrow>
                 (case r of
                    [] \<Rightarrow> 0
                  | sign # ds \<Rightarrow>
                      if sign = CHR ''-'' then - digitsNat ds
                      else if sign = CHR ''+'' then digitsNat ds
                      else digitsNat r));
          magnitude = of_int (digitsNat (intPart @ fracPart))
                        * pow10 (exponent - int (length fracPart))
      in if negative then - magnitude else magnitude)"

definition ParseFloat64 :: "string \<Rightarrow> float64 option" where
  "ParseFloat64 lit = (case round64 (numberValue lit) of Fin x \<Rightarrow> Some (Fin x) | _ \<Rightarrow> None)"

subsection \<open>Values, fields and structures\<close>

text \<open>
  \<^verbatim>\<open>Unmarshal\<close> returns a \<^verbatim>\<open>SyntaxError\<close> when the input is not valid JSON and an
  \<^verbatim>\<open>UnmarshalTypeError\<close> when a value does not fit the Go type it is decoded into.  After
  a type error Go goes on decoding and reports the error at the end; the plugin discards
  the structure whenever an error is returned, so the decoders here stop at the first one.
  Every decoder takes the value already in place: \<^verbatim>\<open>null\<close> leaves a string, a number, a
  boolean or a structure as it is and clears a pointer or a map; an object is merged into
  the structure that is there.
\<close>

datatype json_error = SyntaxError | UnmarshalTypeError

definition setField :: "json_error + 'b \<Rightarrow> ('b \<Rightarrow> 'a) \<Rightarrow> json_error + 'a" where
  "setField r update = (case r of Inl e \<Rightarrow> Inl e | Inr b \<Rightarrow> Inr (update b))"

definition decodeString :: "json \<Rightarrow> string \<Rightarrow> json_error + string" where
  "decodeString v cur =
     (case v of JNull \<Rightarrow> Inr cur | JString raw \<Rightarrow> Inr (unquote raw) | _ \<Rightarrow> Inl UnmarshalTypeError)"

definition decodeBool :: "json \<Rightarrow> bool \<Rightarrow> json_error + bool" where
  "decodeBool v cur =
     (case v of JNull \<Rightarrow> Inr cur | JBool b \<Rightarrow> Inr b | _ \<Rightarrow> Inl UnmarshalTypeError)"

definition decodeInt :: "json \<Rightarrow> int \<Rightarrow> json_error + int" where
  "decodeInt v cur =
     (case v of
        JNull \<Rightarrow> Inr cur
      | JNumber lit \<Rightarrow> (case ParseInt64 lit of Some n \<Rightarrow> Inr n | None \<Rightarrow> Inl UnmarshalTypeError)
      | _ \<Rightarrow> Inl UnmarshalTypeError)"

text \<open>Decoding into \<^verbatim>\<open>interface{}\<close>: numbers become \<^verbatim>\<open>float64\<close>, objects maps in which
  a repeated key keeps its last value.\<close>

fun decodeAny :: "json \<Rightarrow> json_error + go_value"
  and decodeAnyList :: "json list \<Rightarrow> json_error + go_value list"
  and decodeAnyMembers ::
    "(string \<times> json) list \<Rightarrow> (string \<times> go_value) list \<Rightarrow> json_error + (string \<times> go_value) list"
where
  "decodeAny JNull = Inr GoNil"
| "decodeAny (JBool b) = Inr (GoBool b)"
| "decodeAny (JNumber lit) =
     (case ParseFloat64 lit of Some f \<Rightarrow> Inr (GoFloat f) | None \<Rightarrow> Inl UnmarshalTypeError)"
| "decodeAny (JString raw) = Inr (GoString (unquote raw))"
| "decodeAny (JArray vs) =
     (case decodeAnyList vs of Inl e \<Rightarrow> Inl e | Inr xs \<Rightarrow> Inr (GoSlice xs))"
| "decodeAny (JObject ms) =
     (case decodeAnyMembers ms [] of Inl e \<Rightarrow> Inl e | Inr m \<Rightarrow> Inr (GoMap m))"
| "decodeAnyList [] = Inr []"
| "decodeAnyList (v # vs) =
     (case decodeAny v of
        Inl e \<Rightarrow> Inl e
      | Inr x \<Rightarrow> (case decodeAnyList vs of Inl e \<Rightarrow> Inl e | Inr xs \<Rightarrow> Inr (x # xs)))"
| "decodeAnyMembers [] m = Inr m"
| "decodeAnyMembers (kv # ms) m =
     (case decodeAny (snd kv) of
        Inl e \<Rightarrow> Inl e
      | Inr x \<Rightarrow> decodeAnyMembers ms (AList.update (unquote (fst kv)) x m))"

text \<open>
  A key of a JSON object selects the field whose name it equals, or else the field whose
  name it matches under Unicode simple case folding.  All field names of the plugin are
  ASCII, and no two of one structure fold together, so a key selects a field exactly when
  it matches the name letter by letter with case ignored, where the Kelvin sign (U+212A)
  also counts as \<open>k\<close> and the long s (U+017F) as \<open>s\<close>.
\<close>

definition lowerASCII :: "char \<Rightarrow> char" where
  "lowerASCII c =
     (case map_of (zip ''ABCDEFGHIJKLMNOPQRSTUVWXYZ'' ''abcdefghijklmnopqrstuvwxyz'') c of
        Some l \<Rightarrow> l
      | None \<Rightarrow> c)"

fun equalFold :: "string \<Rightarrow> string \<Rightarrow> bool" where
  "equalFold [] [] = True"
| "equalFold [] (n # name) = False"
| "equalFold (k # key) [] = False"
| "equalFold (k # key) (n # name) =
     (if byte k < 0x80 then lowerASCII k = lowerASCII n \<and> equalFold key name
      else (case DecodeRune (k # key) of
              (r, w) \<Rightarrow>
                ((r = 0x212A \<and> lowerASCII n = CHR ''k'') \<or> (r = 0x17F \<and> lowerASCII n = CHR ''s''))
                \<and> equalFold (drop (w - 1) key) name))"

text \<open>The members of an object are decoded in the order of the text, each into the field
  its key selects; a key that selects no field is skipped with its value.\<close>

fun decodeMembers ::
    "(string \<Rightarrow> json \<Rightarrow> 'a \<Rightarrow> json_error + 'a) \<Rightarrow> (string \<times> json) list \<Rightarrow> 'a \<Rightarrow> json_error + 'a" where
  "decodeMembers field [] x = Inr x"
| "decodeMembers field (kv # ms) x =
     (case field (unquote (fst kv)) (snd kv) x of
        Inl e \<Rightarrow> Inl e
      | Inr x' \<Rightarrow> decodeMembers field ms x')"

definition decodeStruct ::
    "(string \<Rightarrow> json \<Rightarrow> 'a \<Rightarrow> json_error + 'a) \<Rightarrow> json \<Rightarrow> 'a \<Rightarrow> json_error + 'a" where
  "decodeStruct field v x =
     (case v of
        JNull \<Rightarrow> Inr x
      | JObject ms \<Rightarrow> decodeMembers field ms x
      | _ \<Rightarrow> Inl UnmarshalTypeError)"

definition decodePtr ::
    "(json \<Rightarrow> 'a \<Rightarrow> json_error + 'a) \<Rightarrow> 'a \<Rightarrow> json \<Rightarrow> 'a option \<Rightarrow> json_error + 'a option" where
  "decodePtr dec zero v p =
     (case v of
        JNull \<Rightarrow> Inr None
      | _ \<Rightarrow> setField (dec v (case p of None \<Rightarrow> zero | Some x \<Rightarrow> x)) Some)"

fun decodeMapMembers ::
    "(json \<Rightarrow> 'a \<Rightarrow> json_error + 'a) \<Rightarrow> 'a \<Rightarrow> (string \<times> json) list \<Rightarrow> (string \<times> 'a) list
      \<Rightarrow> json_error + (string \<times> 'a) list" where
  "decodeMapMembers dec zero [] m = Inr m"
| "decodeMapMembers dec zero (kv # ms) m =
     (case dec (snd kv) zero of
        Inl e \<Rightarrow> Inl e
      | Inr x \<Rightarrow> decodeMapMembers dec zero ms (AList.update (unquote (fst kv)) x m))"

definition decodeMap ::
    "(json \<Rightarrow> 'a \<Rightarrow> json_error + 'a) \<Rightarrow> 'a \<Rightarrow> json \<Rightarrow> (string \<times> 'a) list
      \<Rightarrow> json_error + (string \<times> 'a) list" where
  "decodeMap dec zero v m =
     (case v of
        JNull \<Rightarrow> Inr []
      | JObject ms \<Rightarrow> decodeMapMembers dec zero ms m
      | _ \<Rightarrow> Inl UnmarshalTypeError)"

subsection \<open>The structures of the plugin, by their \<open>json\<close> tags\<close>

definition field_APIStats :: "string \<Rightarrow> json \<Rightarrow> APIStats \<Rightarrow> json_error + APIStats" where
  "field_APIStats key v x =
     (if equalFold key ''totalRequests''
      then setField (decodeInt v (TotalRequests x)) (\<lambda>n. x\<lparr>TotalRequests := n\<rparr>)
      else if equalFold key ''totalErrors''
      then setField (decodeInt v (TotalErrors x)) (\<lambda>n. x\<lparr>TotalErrors := n\<rparr>)
      else if equalFold key ''totalLatencyMs''
      then setField (decodeInt v (TotalLatencyMs x)) (\<lambda>n. x\<lparr>TotalLatencyMs := n\<rparr>)
      else Inr x)"

definition field_TokenStats :: "string \<Rightarrow> json \<Rightarrow> TokenStats \<Rightarrow> json_error + TokenStats" where
  "field_TokenStats key v x =
     (if equalFold key ''prompt''
      then setField (decodeInt v (Prompt x)) (\<lambda>n. x\<lparr>Prompt := n\<rparr>)
      else if equalFold key ''candidates''
      then setField (decodeInt v (Candidates x)) (\<lambda>n. x\<lparr>Candidates := n\<rparr>)
      else if equalFold key ''total''
      then setField (decodeInt v (Total x)) (\<lambda>n. x\<lparr>Total := n\<rparr>)
      else if equalFold key ''cached''
      then setField (decodeInt v (Cached x)) (\<lambda>n. x\<lparr>Cached := n\<rparr>)
      else if equalFold key ''thoughts''
      then setField (decodeInt v (Thoughts x)) (\<lambda>n. x\<lparr>Thoughts := n\<rparr>)
      else if equalFold key ''tool''
      then setField (decodeInt v (Tool x)) (\<lambda>n. x\<lparr>Tool := n\<rparr>)
      else Inr x)"

definition field_ModelStats :: "string \<Rightarrow> json \<Rightarrow> ModelStats \<Rightarrow> json_error + ModelStats" where
  "field_ModelStats key v x =
     (if equalFold key ''api''
      then setField (decodeStruct field_APIStats v (API x)) (\<lambda>a. x\<lparr>API := a\<rparr>)
      else if equalFold key ''tokens''
      then setField (decodeStruct field_TokenStats v (Tokens x)) (\<lambda>t. x\<lparr>Tokens := t\<rparr>)
      else Inr x)"

definition field_ToolDecisions ::
    "string \<Rightarrow> json \<Rightarrow> ToolDecisions \<Rightarrow> json_error + ToolDecisions" where
  "field_ToolDecisions key v x =
     (if equalFold key ''accept''
      then setField (decodeInt v (Accept x)) (\<lambda>n. x\<lparr>Accept := n\<rparr>)
      else if equalFold key ''reject''
      then setField (decodeInt v (Reject x)) (\<lambda>n. x\<lparr>Reject := n\<rparr>)
      else if equalFold key ''modify''
      then setField (decodeInt v (Modify x)) (\<lambda>n. x\<lparr>Modify := n\<rparr>)
      else if equalFold key ''auto_accept''
      then setField (decodeInt v (AutoAccept x)) (\<lambda>n. x\<lparr>AutoAccept := n\<rparr>)
      else Inr x)"

definition field_ToolDetail :: "string \<Rightarrow> json \<Rightarrow> ToolDetail \<Rightarrow> json_error + ToolDetail" where
  "field_ToolDetail key v x =
     (if equalFold key ''count''
      then setField (decodeInt v (Count x)) (\<lambda>n. x\<lparr>Count := n\<rparr>)
      else if equalFold key ''success''
      then setField (decodeInt v (Success x)) (\<lambda>n. x\<lparr>Success := n\<rparr>)
      else if equalFold key ''fail''
      then setField (decodeInt v (Fail x)) (\<lambda>n. x\<lparr>Fail := n\<rparr>)
      else if equalFold key ''durationMs''
      then setField (decodeInt v (DurationMs x)) (\<lambda>n. x\<lparr>DurationMs := n\<rparr>)
      else if equalFold key ''decisions''
      then setField (decodeStruct field_ToolDecisions v (Decisions x)) (\<lambda>d. x\<lparr>Decisions := d\<rparr>)
      else Inr x)"

definition field_ToolStats :: "string \<Rightarrow> json \<Rightarrow> ToolStats \<Rightarrow> json_error + ToolStats" where
  "field_ToolStats key v x =
     (if equalFold key ''totalCalls''
      then setField (decodeInt v (TotalCalls x)) (\<lambda>n. x\<lparr>TotalCalls := n\<rparr>)
      else if equalFold key ''totalSuccess''
      then setField (decodeInt v (TotalSuccess x)) (\<lambda>n. x\<lparr>TotalSuccess := n\<rparr>)
      else if equalFold key ''totalFail''
      then setField (decodeInt v (TotalFail x)) (\<lambda>n. x\<lparr>TotalFail := n\<rparr>)
      else if equalFold key ''totalDurationMs''
      then setField (decodeInt v (TotalDurationMs x)) (\<lambda>n. x\<lparr>TotalDurationMs := n\<rparr>)
      else if equalFold key ''totalDecisions''
      then setField (decodeStruct field_ToolDecisions v (TotalDecisions x))
             (\<lambda>d. x\<lparr>TotalDecisions := d\<rparr>)
      else if equalFold key ''byName''
      then setField (decodeMap (decodeStruct field_ToolDetail) zero_ToolDetail v (ByName x))
             (\<lambda>m. x\<lparr>ByName := m\<rparr>)
      else Inr x)"

definition field_FileStats :: "string \<Rightarrow> json \<Rightarrow> FileStats \<Rightarrow> json_error + FileStats" where
  "field_FileStats key v x =
     (if equalFold key ''totalLinesAdded''
      then setField (decodeInt v (TotalLinesAdded x)) (\<lambda>n. x\<lparr>TotalLinesAdded := n\<rparr>)
      else if equalFold key ''totalLinesRemoved''
      then setField (decodeInt v (TotalLinesRemoved x)) (\<lambda>n. x\<lparr>TotalLinesRemoved := n\<rparr>)
      else Inr x)"

definition field_CLIStats :: "string \<Rightarrow> json \<Rightarrow> CLIStats \<Rightarrow> json_error + CLIStats" where
  "field_CLIStats key v x =
     (if equalFold key ''models''
      then setField (decodeMap (decodeStruct field_ModelStats) zero_ModelStats v (Models x))
             (\<lambda>m. x\<lparr>Models := m\<rparr>)
      else if equalFold key ''tools''
      then setField (decodeStruct field_ToolStats v (Tools x)) (\<lambda>t. x\<lparr>Tools := t\<rparr>)
      else if equalFold key ''files''
      then setField (decodeStruct field_FileStats v (Files x)) (\<lambda>f. x\<lparr>Files := f\<rparr>)
      else Inr x)"

definition field_CLIError :: "string \<Rightarrow> json \<Rightarrow> CLIError \<Rightarrow> json_error + CLIError" where
  "field_CLIError key v x =
     (if equalFold key ''type''
      then setField (decodeString v (CLIError.Type x)) (\<lambda>s. x\<lparr>CLIError.Type := s\<rparr>)
      else if equalFold key ''message''
      then setField (decodeString v (Message x)) (\<lambda>s. x\<lparr>Message := s\<rparr>)
      else if equalFold key ''code''
      then setField (decodeInt v (Code x)) (\<lambda>n. x\<lparr>Code := n\<rparr>)
      else Inr x)"

definition field_CLIResponse :: "string \<Rightarrow> json \<Rightarrow> CLIResponse \<Rightarrow> json_error + CLIResponse" where
  "field_CLIResponse key v x =
     (if equalFold key ''response''
      then setField (decodeString v (Response x)) (\<lambda>s. x\<lparr>Response := s\<rparr>)
      else if equalFold key ''stats''
      then setField (decodePtr (decodeStruct field_CLIStats) zero_CLIStats v (CLIResponse.Stats x))
             (\<lambda>p. x\<lparr>CLIResponse.Stats := p\<rparr>)
      else if equalFold key ''error''
      then setField (decodePtr (decodeStruct field_CLIError) zero_CLIError v (Error x))
             (\<lambda>p. x\<lparr>Error := p\<rparr>)
      else Inr x)"

definition field_StreamEvent :: "string \<Rightarrow> json \<Rightarrow> StreamEvent \<Rightarrow> json_error + StreamEvent" where
  "field_StreamEvent key v x =
     (if equalFold key ''type''
      then setField (decodeString v (StreamEvent.Type x)) (\<lambda>s. x\<lparr>StreamEvent.Type := s\<rparr>)
      else if equalFold key ''timestamp''
      then setField (decodeString v (Timestamp x)) (\<lambda>s. x\<lparr>Timestamp := s\<rparr>)
      else if equalFold key ''session_id''
      then setField (decodeString v (SessionID x)) (\<lambda>s. x\<lparr>SessionID := s\<rparr>)
      else if equalFold key ''model''
      then setField (decodeString v (StreamEvent.Model x)) (\<lambda>s. x\<lparr>StreamEvent.Model := s\<rparr>)
      else if equalFold key ''role''
      then setField (decodeString v (Role x)) (\<lambda>s. x\<lparr>Role := s\<rparr>)
      else if equalFold key ''content''
      then setField (decodeString v (Content x)) (\<lambda>s. x\<lparr>Content := s\<rparr>)
      else if equalFold key ''delta''
      then setField (decodeBool v (Delta x)) (\<lambda>b. x\<lparr>Delta := b\<rparr>)
      else if equalFold key ''tool_name''
      then setField (decodeString v (ToolName x)) (\<lambda>s. x\<lparr>ToolName := s\<rparr>)
      else if equalFold key ''tool_id''
      then setField (decodeString v (ToolID x)) (\<lambda>s. x\<lparr>ToolID := s\<rparr>)
      else if equalFold key ''parameters''
      then setField (decodeMap (\<lambda>v cur. decodeAny v) GoNil v (Parameters x))
             (\<lambda>m. x\<lparr>Parameters := m\<rparr>)
      else if equalFold key ''status''
      then setField (decodeString v (Status x)) (\<lambda>s. x\<lparr>Status := s\<rparr>)
      else if equalFold key ''output''
      then setField (decodeString v (Output x)) (\<lambda>s. x\<lparr>Output := s\<rparr>)
      else if equalFold key ''stats''
      then setField (decodePtr (decodeStruct field_CLIStats) zero_CLIStats v (StreamEvent.Stats x))
             (\<lambda>p. x\<lparr>StreamEvent.Stats := p\<rparr>)
      else Inr x)"

text \<open>\<^verbatim>\<open>json.Unmarshal(data, &response)\<close> and \<^verbatim>\<open>json.Unmarshal(data, &event)\<close> into a
  variable that holds the zero value.\<close>

definition Unmarshal_CLIResponse :: "string \<Rightarrow> json_error + CLIResponse" where
  "Unmarshal_CLIResponse data =
     (case parseJSON data of
        None \<Rightarrow> Inl SyntaxError
      | Some v \<Rightarrow> decodeStruct field_CLIResponse v zero_CLIResponse)"

definition Unmarshal_StreamEvent :: "string \<Rightarrow> json_error + StreamEvent" where
  "Unmarshal_StreamEvent data =
     (case parseJSON data of
        None \<Rightarrow> Inl SyntaxError
      | Some v \<Rightarrow> decodeStruct field_StreamEvent v zero_StreamEvent)"

section \<open>Errors (errors.go)\<close>

text \<open>The five sentinel errors.  \<open>Execute\<close> and \<open>ParseJSON\<close> wrap two of them with
  \<^verbatim>\<open>fmt.Errorf("%w: ...")\<close>: \<open>ErrCLIExecution\<close> carries the text formatted after the colon,
  \<open>ErrOutputParsing\<close> the cause (\<^verbatim>\<open>empty output\<close>, or the error of the JSON decoder, whose
  wording is the library's).\<close>

datatype parse_cause = EmptyOutput | JSONError json_error

datatype error =
  ErrPromptRequired
| ErrGeminiCLINotFound
| ErrCLIExecution string
| ErrOutputParsing parse_cause
| ErrTimeout

section \<open>The output parser (output\_parser.go)\<close>

text \<open>With \<open>debug\<close> set the parser prints diagnostics to the standard output of the plugin;
  they are no part of what the functions return and are left out.\<close>

record OutputParser =
  debug :: bool

definition NewOutputParser :: "bool \<Rightarrow> OutputParser" where
  "NewOutputParser d = \<lparr>debug = d\<rparr>"

definition ParseJSON :: "OutputParser \<Rightarrow> string \<Rightarrow> error + CLIResponse" where
  "ParseJSON p output =
     (let output = TrimSpace output in
      if output = [] then Inl (ErrOutputParsing EmptyOutput)
      else (case Unmarshal_CLIResponse output of
              Inl err \<Rightarrow> Inl (ErrOutputParsing (JSONError err))
            | Inr response \<Rightarrow> Inr response))"

text \<open>The body of the loop of \<open>ParseStreamJSON\<close> for one decoded event, on the events and the
  final response so far.\<close>

definition streamEvent ::
    "StreamEvent \<Rightarrow> StreamEvent list \<times> CLIResponse option \<Rightarrow> StreamEvent list \<times> CLIResponse option" where
  "streamEvent event st =
     (case st of
        (events, finalResponse) \<Rightarrow>
          (let events = events @ [event];
               finalResponse =
                 (if StreamEvent.Type event = ''result''
                  then Some \<lparr>Response = [], CLIResponse.Stats = StreamEvent.Stats event, Error = None\<rparr>
                  else finalResponse);
               finalResponse =
                 (if StreamEvent.Type event = ''message'' \<and> Role event = ''assistant''
                     \<and> \<not> Delta event
                  then Some ((case finalResponse of None \<Rightarrow> zero_CLIResponse | Some r \<Rightarrow> r)
                               \<lparr>Response := Content event\<rparr>)
                  else finalResponse)
           in (events, finalResponse)))"

fun streamLines ::
    "string list \<Rightarrow> StreamEvent list \<times> CLIResponse option \<Rightarrow> StreamEvent list \<times> CLIResponse option" where
  "streamLines [] st = st"
| "streamLines (line # lines) st =
     (let line = TrimSpace line in
      if line = [] then streamLines lines st
      else (case Unmarshal_StreamEvent line of
              Inl err \<Rightarrow> streamLines lines st
            | Inr event \<Rightarrow> streamLines lines (streamEvent event st)))"

definition ParseStreamJSON ::
    "OutputParser \<Rightarrow> string \<Rightarrow> StreamEvent list \<times> CLIResponse option \<times> error option" where
  "ParseStreamJSON p output =
     (let lines = SplitLines (TrimSpace output) in
      case streamLines lines ([], None) of
        (events, finalResponse) \<Rightarrow> (events, finalResponse, None))"

text \<open>The lines the loop hands to the decoder: the lines of the trimmed output, each
  trimmed, without the empty ones.\<close>

definition nonBlankLines :: "string \<Rightarrow> string list" where
  "nonBlankLines output = filter (\<lambda>l. l \<noteq> []) (map TrimSpace (SplitLines (TrimSpace output)))"

definition ParseText :: "OutputParser \<Rightarrow> string \<Rightarrow> CLIResponse" where
  "ParseText p output = \<lparr>Response = TrimSpace output, CLIResponse.Stats = None, Error = None\<rparr>"

section \<open>Execution (cli\_executor.go)\<close>

record ExecutionResult =
  RawOutput :: string
  Response :: "CLIResponse option"
  ExitCode :: int

definition errorText :: "RunError \<Rightarrow> string" where
  "errorText err = (case err of ExitError code text \<Rightarrow> text | OtherRunError text \<Rightarrow> text)"

text \<open>Lines 124 to 132 of \<open>Execute\<close>: an error reported inside the parsed response.\<close>

definition checkAPIError :: "ExecutionResult \<Rightarrow> ExecutionResult option \<times> error option" where
  "checkAPIError result =
     (case ExecutionResult.Response result of
        Some response \<Rightarrow>
          (case Error response of
             Some e \<Rightarrow>
               (Some result, Some (ErrCLIExecution (CLIError.Type e @ '' - '' @ Message e)))
           | None \<Rightarrow> (Some result, None))
      | None \<Rightarrow> (Some result, None))"

text \<open>Lines 102 to 122 of \<open>Execute\<close>: the captured output goes to the parser the
  configured format selects, which gives the response to store in the result or the error
  to return with it.\<close>

definition parseByFormat :: "Config \<Rightarrow> string \<Rightarrow> error + CLIResponse option" where
  "parseByFormat c rawOutput =
     (let parser = NewOutputParser (Debug c) in
      if OutputFormat c = ''json'' then
        (case ParseJSON parser rawOutput of
           Inl parseErr \<Rightarrow> Inl parseErr
         | Inr response \<Rightarrow> Inr (Some response))
      else if OutputFormat c = ''stream-json'' then
        (case ParseStreamJSON parser rawOutput of
           (events, response, parseErr) \<Rightarrow>
             (case parseErr of Some e \<Rightarrow> Inl e | None \<Rightarrow> Inr response))
      else Inr (Some (ParseText parser rawOutput)))"

text \<open>Lines 102 to 132: parsing, then the check for an error inside the response.\<close>

definition parseOutput :: "Config \<Rightarrow> ExecutionResult \<Rightarrow> ExecutionResult option \<times> error option" where
  "parseOutput c result =
     (case parseByFormat c (RawOutput result) of
        Inl parseErr \<Rightarrow> (Some result, Some parseErr)
      | Inr response \<Rightarrow> checkAPIError (result\<lparr>ExecutionResult.Response := response\<rparr>))"

text \<open>\<open>Execute\<close>: the tool is run with the arguments and environment built from the
  configuration; lines 83 to 100 handle the error of the run.\<close>

definition Execute ::
    "World \<Rightarrow> Config \<Rightarrow> string \<Rightarrow> string \<Rightarrow> ExecutionResult option \<times> error option" where
  "Execute w c prompt stdinInput =
     (let args = buildArgs c prompt;
          out = RunGemini w args (buildEnv w c) (Target c)
                  (if stdinInput \<noteq> [] then Some stdinInput else None) (Timeout c);
          result = \<lparr>RawOutput = stdout out, ExecutionResult.Response = None, ExitCode = 0\<rparr>
      in case runErr out of
           Some err \<Rightarrow>
             if deadlineExceeded out then (None, Some ErrTimeout)
             else (let result = (case err of
                                   ExitError code text \<Rightarrow> result\<lparr>ExitCode := code\<rparr>
                                 | OtherRunError text \<Rightarrow> result)
                   in if stdout out \<noteq> [] then parseOutput c result
                      else (None, Some (ErrCLIExecution
                              (errorText err @ '' (stderr: '' @ stderr out @ '')''))))
         | None \<Rightarrow> parseOutput c result)"

section \<open>Pricing and cost (stats\_formatter)\<close>

record ModelPricing =
  Name :: string
  InputPriceShort :: float64
  InputPriceLong :: float64
  OutputPriceShort :: float64
  OutputPriceLong :: float64
  LongContextThreshold :: int

text \<open>
  \<^verbatim>\<open>PricingTable\<close> is a package-level map variable.  The cost function reads it twice: by
  key, and by \<^verbatim>\<open>range\<close>, whose order Go leaves unspecified.  The table is therefore an
  argument of the model, a list of entries in the order in which \<^verbatim>\<open>range\<close> yields them;
  \<open>PricingTable\<close> below lists the entries in the order of the source text, and a statement
  about any other order quantifies over the list.
\<close>

type_synonym pricing_table = "(string \<times> ModelPricing) list"

definition PricingTable :: pricing_table where
  "PricingTable =
     [(''gemini-3-pro-preview'',
         \<lparr>Name = ''Gemini 3 Pro'', InputPriceShort = f64 4, InputPriceLong = f64 4,
          OutputPriceShort = f64 12, OutputPriceLong = f64 12, LongContextThreshold = 0\<rparr>),
      (''gemini-3-flash-preview'',
         \<lparr>Name = ''Gemini 3 Flash'', InputPriceShort = f64 (1 / 2), InputPriceLong = f64 (1 / 2),
          OutputPriceShort = f64 3, OutputPriceLong = f64 3, LongContextThreshold = 0\<rparr>),
      (''gemini-2.5-pro'',
         \<lparr>Name = ''Gemini 2.5 Pro'', InputPriceShort = f64 (5 / 4), InputPriceLong = f64 (5 / 2),
          OutputPriceShort = f64 10, OutputPriceLong = f64 15,
          LongContextThreshold = 200000\<rparr>),
      (''gemini-2.5-flash'',
         \<lparr>Name = ''Gemini 2.5 Flash'', InputPriceShort = f64 (3 / 10),
          InputPriceLong = f64 (3 / 10), OutputPriceShort = f64 (5 / 2),
          OutputPriceLong = f64 (5 / 2), LongContextThreshold = 0\<rparr>),
      (''gemini-2.5-flash-lite'',
         \<lparr>Name = ''Gemini 2.5 Flash-Lite'', InputPriceShort = f64 (1 / 10),
          InputPriceLong = f64 (1 / 10), OutputPriceShort = f64 (2 / 5),
          OutputPriceLong = f64 (2 / 5), LongContextThreshold = 0\<rparr>),
      (''gemini-2.0-flash'',
         \<lparr>Name = ''Gemini 2.0 Flash'', InputPriceShort = f64 (3 / 20),
          InputPriceLong = f64 (3 / 20), OutputPriceShort = f64 (3 / 5),
          OutputPriceLong = f64 (3 / 5), LongContextThreshold = 0\<rparr>),
      (''gemini-2.0-flash-exp'',
         \<lparr>Name = ''Gemini 2.0 Flash (Exp)'', InputPriceShort = f64 (3 / 20),
          InputPriceLong = f64 (3 / 20), OutputPriceShort = f64 (3 / 5),
          OutputPriceLong = f64 (3 / 5), LongContextThreshold = 0\<rparr>),
      (''gemini-2.0-flash-lite'',
         \<lparr>Name = ''Gemini 2.0 Flash-Lite'', InputPriceShort = f64 (3 / 40),
          InputPriceLong = f64 (3 / 40), OutputPriceShort = f64 (3 / 10),
          OutputPriceLong = f64 (3 / 10), LongContextThreshold = 0\<rparr>),
      (''gemini-1.5-pro'',
         \<lparr>Name = ''Gemini 1.5 Pro'', InputPriceShort = f64 (5 / 4), InputPriceLong = f64 (5 / 4),
          OutputPriceShort = f64 5, OutputPriceLong = f64 5, LongContextThreshold = 0\<rparr>),
      (''gemini-1.5-flash'',
         \<lparr>Name = ''Gemini 1.5 Flash'', InputPriceShort = f64 (3 / 40),
          InputPriceLong = f64 (3 / 40), OutputPriceShort = f64 (3 / 10),
          OutputPriceLong = f64 (3 / 10), LongContextThreshold = 0\<rparr>)]"

definition defaultPricing :: ModelPricing where
  "defaultPricing =
     \<lparr>Name = [], InputPriceShort = f64 1, InputPriceLong = Fin 0, OutputPriceShort = f64 5,
      OutputPriceLong = Fin 0, LongContextThreshold = 0\<rparr>"

text \<open>The partial-match loop: the first entry, in iteration order, whose lower-cased key occurs
  in the lower-cased model name.  \<open>lower\<close> stands for \<^verbatim>\<open>strings.ToLower\<close>, which maps runes
  through the Unicode case tables of the Go library; the model takes it as an argument.
  \<open>asciiToLower\<close> is what it computes on a string of ASCII bytes.\<close>

definition partialMatch :: "pricing_table \<Rightarrow> (string \<Rightarrow> string) \<Rightarrow> string \<Rightarrow> ModelPricing option" where
  "partialMatch tbl lower modelName =
     map_option snd (find (\<lambda>(key, p). Contains (lower modelName) (lower key)) tbl)"

definition asciiToLower :: "string \<Rightarrow> string" where
  "asciiToLower s =
     map (\<lambda>c. if 0x41 \<le> byte c \<and> byte c \<le> 0x5A then char_of (byte c + 32) else c) s"

text \<open>Lines 366 to 384 of \<open>calculateModelCost\<close>: the entry under the exact name, else the
  first partial match, else the default prices.\<close>

definition selectPricing :: "pricing_table \<Rightarrow> (string \<Rightarrow> string) \<Rightarrow> string \<Rightarrow> ModelPricing" where
  "selectPricing tbl lower modelName =
     (case map_of tbl modelName of
        Some pricing \<Rightarrow> pricing
      | None \<Rightarrow>
          (case partialMatch tbl lower modelName of
             Some pricing \<Rightarrow> pricing
           | None \<Rightarrow> defaultPricing))"

definition calculateModelCost ::
    "pricing_table \<Rightarrow> (string \<Rightarrow> string) \<Rightarrow> string \<Rightarrow> TokenStats \<Rightarrow> float64" where
  "calculateModelCost tbl lower modelName tokens =
     (let pricing = selectPricing tbl lower modelName;
          inputCost =
            fmul (fdiv (float64_of_int (Prompt tokens)) (f64 1000000)) (InputPriceShort pricing);
          outputCost =
            fmul (fdiv (float64_of_int (Candidates tokens)) (f64 1000000))
              (OutputPriceShort pricing);
          thoughtsCost =
            fmul (fdiv (float64_of_int (Thoughts tokens)) (f64 1000000))
              (OutputPriceShort pricing)
      in fadd (fadd inputCost outputCost) thoughtsCost)"

section \<open>Sample inputs\<close>

text \<open>The zero value \<^verbatim>\<open>Config{}\<close>, configurations of the test file built from it, and one
  possible answer of the operating system.\<close>

definition zeroConfig :: Config where
  "zeroConfig =
     \<lparr>Config.Prompt = [], Target = [], Model = [], OutputFormat = [], Yolo = False,
      ApprovalMode = [], IncludeDirs = [], Debug = False, Timeout = 0, GitDiff = False,
      GitCommitSHA = [], StdinInput = [], APIKey = [], GCPProject = [], GCPLocation = [],
      GCPCredentials = []\<rparr>"

definition credentialsOnlyConfig :: Config where
  "credentialsOnlyConfig =
     zeroConfig\<lparr>Config.Prompt := ''test'', GCPCredentials := ''{\"type\":\"service_account\"}''\<rparr>"

definition keyAndCredentialsConfig :: Config where
  "keyAndCredentialsConfig =
     zeroConfig\<lparr>Config.Prompt := ''test'', APIKey := ''test-api-key'',
       GCPCredentials := ''{\"type\":\"service_account\"}''\<rparr>"

definition keyProjectCredentialsConfig :: Config where
  "keyProjectCredentialsConfig =
     zeroConfig\<lparr>Config.Prompt := ''test'', APIKey := ''test-api-key'',
       GCPProject := ''my-project'', GCPCredentials := ''/secrets/sa.json''\<rparr>"

definition sampleWorld :: World where
  "sampleWorld =
     \<lparr>Environ = [''PATH=/usr/local/bin:/usr/bin''],
      CreateTemp = Some ''/tmp/gcp-credentials-123.json'',
      Abs = (\<lambda>path. Some (''/drone/src/'' @ path)),
      RunGemini = (\<lambda>args env dir input seconds.
         \<lparr>runErr = None, deadlineExceeded = False, stdout = [], stderr = []\<rparr>)\<rparr>"

text \<open>The token counts of the statistics test, and a prompt beyond the long-context
  threshold of \<open>gemini-2.5-pro\<close>.\<close>

definition testTokens :: TokenStats where
  "testTokens =
     \<lparr>Prompt = 1000, Candidates = 500, Total = 1500, Cached = 200, Thoughts = 100, Tool = 50\<rparr>"

definition longContextTokens :: TokenStats where
  "longContextTokens =
     \<lparr>Prompt = 300000, Candidates = 0, Total = 300000, Cached = 0, Thoughts = 0, Tool = 0\<rparr>"

text \<open>What the cost function reads of a table entry, and a table with the long-context
  fields cleared.\<close>

definition priceFields :: "string \<times> ModelPricing \<Rightarrow> string \<times> float64 \<times> float64" where
  "priceFields e = (fst e, InputPriceShort (snd e), OutputPriceShort (snd e))"

definition withoutLongContext :: "pricing_table \<Rightarrow> pricing_table" where
  "withoutLongContext tbl =
     map (\<lambda>(key, p).
            (key, p\<lparr>InputPriceLong := Fin 0, OutputPriceLong := Fin 0, LongContextThreshold := 0\<rparr>))
       tbl"

text \<open>The inputs of \<open>TestParseJSON\<close> and \<open>TestParseStreamJSON\<close>.\<close>

definition whitespaceOnly :: string where
  "whitespaceOnly = [CHR '' '', CHR '' '', CHR '' '', CHR 0x0A, CHR 0x09, CHR '' '', CHR '' '']"

definition helloJSON :: string where
  "helloJSON = ''{\"response\":\"Hello, World!\",\"stats\":null}''"

definition errorJSON :: string where
  "errorJSON =
     ''{\"response\": \"\", \"error\": {\"type\": \"AuthError\", \"message\": \"Invalid API key\", \"code\": 401}}''"

definition initLine :: string where
  "initLine =
     ''{\"type\":\"init\",\"timestamp\":\"2025-01-01T00:00:00Z\",\"session_id\":\"abc123\",\"model\":\"gemini-2.5-pro\"}''"

definition userLine :: string where
  "userLine =
     ''{\"type\":\"message\",\"role\":\"user\",\"content\":\"Hello\",\"timestamp\":\"2025-01-01T00:00:01Z\"}''"

definition assistantLine :: string where
  "assistantLine =
     ''{\"type\":\"message\",\"role\":\"assistant\",\"content\":\"Hi there!\",\"timestamp\":\"2025-01-01T00:00:02Z\"}''"

definition resultLine :: string where
  "resultLine =
     ''{\"type\":\"result\",\"status\":\"success\",\"stats\":{\"models\":{},\"tools\":{\"totalCalls\":0},\"files\":{}},\"timestamp\":\"2025-01-01T00:00:03Z\"}''"

definition testTranscript :: string where
  "testTranscript =
     initLine @ [CHR 0x0A] @ userLine @ [CHR 0x0A] @ assistantLine @ [CHR 0x0A] @ resultLine"

definition initEvent :: StreamEvent where
  "initEvent =
     zero_StreamEvent\<lparr>StreamEvent.Type := ''init'', Timestamp := ''2025-01-01T00:00:00Z'',
       SessionID := ''abc123'', StreamEvent.Model := ''gemini-2.5-pro''\<rparr>"

definition userEvent :: StreamEvent where
  "userEvent =
     zero_StreamEvent\<lparr>StreamEvent.Type := ''message'', Timestamp := ''2025-01-01T00:00:01Z'',
       Role := ''user'', Content := ''Hello''\<rparr>"

definition assistantEvent :: StreamEvent where
  "assistantEvent =
     zero_StreamEvent\<lparr>StreamEvent.Type := ''message'', Timestamp := ''2025-01-01T00:00:02Z'',
       Role := ''assistant'', Content := ''Hi there!''\<rparr>"

definition resultEvent :: StreamEvent where
  "resultEvent =
     zero_StreamEvent\<lparr>StreamEvent.Type := ''result'', Timestamp := ''2025-01-01T00:00:03Z'',
       Status := ''success'', StreamEvent.Stats := Some zero_CLIStats\<rparr>"

text \<open>A transcript in which no line is a JSON document.\<close>

definition noiseTranscript :: string where
  "noiseTranscript = ''not json'' @ [CHR 0x0A] @ ''   '' @ [CHR 0x0A] @ ''{\"type\":''"

text \<open>Runs of the tool: one that exits with status 1 and prints only to the standard error,
  one that exits with status 1 after printing a response with an error record.\<close>

definition jsonConfig :: Config where
  "jsonConfig = zeroConfig\<lparr>Config.Prompt := ''Review this code'', OutputFormat := ''json''\<rparr>"

definition failedSilentWorld :: World where
  "failedSilentWorld =
     sampleWorld\<lparr>RunGemini := (\<lambda>args env dir input seconds.
        \<lparr>runErr = Some (ExitError 1 ''exit status 1''), deadlineExceeded = False, stdout = [],
         stderr = ''quota exceeded''\<rparr>)\<rparr>"

definition failedWithOutputWorld :: World where
  "failedWithOutputWorld =
     sampleWorld\<lparr>RunGemini := (\<lambda>args env dir input seconds.
        \<lparr>runErr = Some (ExitError 1 ''exit status 1''), deadlineExceeded = False,
         stdout = errorJSON, stderr = []\<rparr>)\<rparr>"

definition authError :: CLIError where
  "authError = \<lparr>CLIError.Type = ''AuthError'', Message = ''Invalid API key'', Code = 401\<rparr>"

section \<open>Authentication mode\<close>

text \<open>
  C4, as amended.  \<open>DetectAuthMode\<close> is decided by the three credential fields alone:
  Vertex mode exactly when the project is set together with the API key or with the
  credentials; otherwise API-key mode exactly when the API key is set; otherwise none.
  Credentials without a project give no mode when the API key is empty too, and API-key
  mode when it is not.
\<close>

theorem DetectAuthMode_cases:
  "(DetectAuthMode c = AuthModeVertexAI \<longleftrightarrow>
      (APIKey c \<noteq> [] \<and> GCPProject c \<noteq> []) \<or> (GCPCredentials c \<noteq> [] \<and> GCPProject c \<noteq> []))
   \<and> (DetectAuthMode c = AuthModeGeminiAPIKey \<longleftrightarrow>
      \<not> ((APIKey c \<noteq> [] \<and> GCPProject c \<noteq> []) \<or> (GCPCredentials c \<noteq> [] \<and> GCPProject c \<noteq> []))
      \<and> APIKey c \<noteq> [])
   \<and> (DetectAuthMode c = AuthModeNone \<longleftrightarrow>
      \<not> ((APIKey c \<noteq> [] \<and> GCPProject c \<noteq> []) \<or> (GCPCredentials c \<noteq> [] \<and> GCPProject c \<noteq> []))
      \<and> APIKey c = [])
   \<and> (GCPCredentials c \<noteq> [] \<and> GCPProject c = [] \<and> APIKey c = [] \<longrightarrow>
        DetectAuthMode c = AuthModeNone)
   \<and> (GCPCredentials c \<noteq> [] \<and> GCPProject c = [] \<and> APIKey c \<noteq> [] \<longrightarrow>
        DetectAuthMode c = AuthModeGeminiAPIKey)
   \<and> (APIKey c' = APIKey c \<and> GCPProject c' = GCPProject c \<and> GCPCredentials c' = GCPCredentials c
        \<longrightarrow> DetectAuthMode c' = DetectAuthMode c)"
  by (simp add: DetectAuthMode_def)

text \<open>The test \<open>credentials without project should be none\<close>, and the same settings with
  another prompt.\<close>

theorem DetectAuthMode_cases_witness:
  "GCPCredentials credentialsOnlyConfig \<noteq> [] \<and> GCPProject credentialsOnlyConfig = []
   \<and> APIKey credentialsOnlyConfig = []
   \<and> DetectAuthMode credentialsOnlyConfig = AuthModeNone
   \<and> DetectAuthMode (credentialsOnlyConfig\<lparr>Config.Prompt := ''review''\<rparr>) = AuthModeNone"
  using DetectAuthMode_cases
    [of credentialsOnlyConfig "credentialsOnlyConfig\<lparr>Config.Prompt := ''review''\<rparr>"]
  by (simp add: credentialsOnlyConfig_def zeroConfig_def)

text \<open>C4 as stated fails: with credentials, no project and an API key, the mode is not
  none.\<close>

theorem DetectAuthMode_credentials_without_project_counterexample:
  "GCPCredentials keyAndCredentialsConfig \<noteq> [] \<and> GCPProject keyAndCredentialsConfig = []
   \<and> DetectAuthMode keyAndCredentialsConfig = AuthModeGeminiAPIKey
   \<and> DetectAuthMode keyAndCredentialsConfig \<noteq> AuthModeNone"
  by (simp add: keyAndCredentialsConfig_def zeroConfig_def DetectAuthMode_def)

section \<open>Argument vector\<close>

text \<open>
  C8.  For every configuration and prompt, \<open>buildArgs\<close> produces the prompt flag first and
  then exactly the flags of the specification's table whose setting is non-empty or true,
  in the table's order, each with its value and nothing in place of an omitted one: the
  vector is the concatenation of the enabled rows, it starts with \<open>--prompt\<close> and the
  prompt, and its length is the sum of the arguments of the enabled rows.
\<close>

theorem buildArgs_flags:
  "buildArgs c prompt = specArgs c prompt
   \<and> take 2 (buildArgs c prompt) = [''--prompt'', prompt]
   \<and> int (length (buildArgs c prompt)) =
       2 + (if OutputFormat c \<noteq> [] then 2 else 0) + (if Config.Model c \<noteq> [] then 2 else 0)
         + (if Yolo c then 1 else 0) + (if ApprovalMode c \<noteq> [] then 2 else 0)
         + (if IncludeDirs c \<noteq> [] then 2 else 0) + (if Debug c then 1 else 0)"
  by (simp add: buildArgs_def specArgs_def flagTable_def)

section \<open>Environment in Vertex mode\<close>

lemma envOverrides_vertex:
  "DetectAuthMode c = AuthModeVertexAI \<Longrightarrow>
   envOverrides w c =
     [''GOOGLE_GENAI_USE_VERTEXAI=true'', ''GOOGLE_CLOUD_PROJECT='' @ GCPProject c]
     @ (if GCPLocation c \<noteq> [] then [''GOOGLE_CLOUD_LOCATION='' @ GCPLocation c] else [])
     @ (if APIKey c \<noteq> [] then [''GOOGLE_API_KEY='' @ APIKey c] else [])
     @ (if GCPCredentials c \<noteq> []
        then [''GOOGLE_APPLICATION_CREDENTIALS='' @ credentialsPath w c] else [])"
  by (auto simp: envOverrides_def buildEnv_def DetectAuthMode_def split: if_splits)

text \<open>
  C3, as amended.  In Vertex mode the entries added to the environment are
  \<open>GOOGLE_GENAI_USE_VERTEXAI=true\<close> and the project, then the location when it is
  non-empty, then \<open>GOOGLE_API_KEY\<close> when the API key is non-empty, then
  \<open>GOOGLE_APPLICATION_CREDENTIALS\<close> when the credentials are non-empty.  Each of the two
  credential variables is set exactly when its setting is non-empty, at least one of them
  is set, and both are when both settings are given.
\<close>

theorem buildEnv_vertex:
  assumes "DetectAuthMode c = AuthModeVertexAI"
  shows "envOverrides w c =
       [''GOOGLE_GENAI_USE_VERTEXAI=true'', ''GOOGLE_CLOUD_PROJECT='' @ GCPProject c]
       @ (if GCPLocation c \<noteq> [] then [''GOOGLE_CLOUD_LOCATION='' @ GCPLocation c] else [])
       @ (if APIKey c \<noteq> [] then [''GOOGLE_API_KEY='' @ APIKey c] else [])
       @ (if GCPCredentials c \<noteq> []
          then [''GOOGLE_APPLICATION_CREDENTIALS='' @ credentialsPath w c] else [])
     \<and> GCPProject c \<noteq> []
     \<and> setsVar ''GOOGLE_GENAI_USE_VERTEXAI'' (envOverrides w c)
     \<and> setsVar ''GOOGLE_CLOUD_PROJECT'' (envOverrides w c)
     \<and> (setsVar ''GOOGLE_CLOUD_LOCATION'' (envOverrides w c) \<longleftrightarrow> GCPLocation c \<noteq> [])
     \<and> (setsVar ''GOOGLE_API_KEY'' (envOverrides w c) \<longleftrightarrow> APIKey c \<noteq> [])
     \<and> (setsVar ''GOOGLE_APPLICATION_CREDENTIALS'' (envOverrides w c)
          \<longleftrightarrow> GCPCredentials c \<noteq> [])
     \<and> (setsVar ''GOOGLE_API_KEY'' (envOverrides w c)
          \<or> setsVar ''GOOGLE_APPLICATION_CREDENTIALS'' (envOverrides w c))"
proof -
  have project: "GCPProject c \<noteq> []"
    using assms by (auto simp: DetectAuthMode_def split: if_splits)
  have one: "APIKey c \<noteq> [] \<or> GCPCredentials c \<noteq> []"
    using assms by (auto simp: DetectAuthMode_def split: if_splits)
  show ?thesis
    using project one by (simp add: envOverrides_vertex [OF assms] setsVar_def)
qed

lemma credentialsPath_sample:
  "credentialsPath sampleWorld keyProjectCredentialsConfig = ''/secrets/sa.json''"
  by code_simp

theorem buildEnv_vertex_witness:
  "DetectAuthMode keyProjectCredentialsConfig = AuthModeVertexAI
   \<and> envOverrides sampleWorld keyProjectCredentialsConfig =
       [''GOOGLE_GENAI_USE_VERTEXAI=true'', ''GOOGLE_CLOUD_PROJECT=my-project'',
        ''GOOGLE_API_KEY=test-api-key'', ''GOOGLE_APPLICATION_CREDENTIALS=/secrets/sa.json'']"
proof -
  have mode: "DetectAuthMode keyProjectCredentialsConfig = AuthModeVertexAI"
    by (simp add: DetectAuthMode_def keyProjectCredentialsConfig_def zeroConfig_def)
  show ?thesis
    using mode buildEnv_vertex [OF mode, of sampleWorld] credentialsPath_sample
    by (simp add: keyProjectCredentialsConfig_def zeroConfig_def)
qed

text \<open>C3 as stated fails: with an API key, a project and credentials, and no location, the
  mode is Vertex, both credential variables are set and no location variable is.\<close>

theorem buildEnv_vertex_both_counterexample:
  "DetectAuthMode keyProjectCredentialsConfig = AuthModeVertexAI
   \<and> setsVar ''GOOGLE_API_KEY'' (envOverrides sampleWorld keyProjectCredentialsConfig)
   \<and> setsVar ''GOOGLE_APPLICATION_CREDENTIALS''
        (envOverrides sampleWorld keyProjectCredentialsConfig)
   \<and> \<not> setsVar ''GOOGLE_CLOUD_LOCATION'' (envOverrides sampleWorld keyProjectCredentialsConfig)"
  by code_simp

section \<open>Cost of a model's token usage\<close>

lemma selectPricing_gemini_2_5_pro:
  "selectPricing PricingTable lower ''gemini-2.5-pro'' =
     \<lparr>Name = ''Gemini 2.5 Pro'', InputPriceShort = f64 (5 / 4), InputPriceLong = f64 (5 / 2),
      OutputPriceShort = f64 10, OutputPriceLong = f64 15, LongContextThreshold = 200000\<rparr>"
  by (simp add: selectPricing_def PricingTable_def)

lemma cost_arith:
  "fadd (fadd (fmul (fdiv (float64_of_int 1000) (f64 1000000)) (f64 (5 / 4)))
              (fmul (fdiv (float64_of_int 500) (f64 1000000)) (f64 10)))
        (fmul (fdiv (float64_of_int 100) (f64 1000000)) (f64 10)) = f64 (29 / 4000)"
  by code_simp

lemma f64_distinct: "f64 (29 / 4000) \<noteq> f64 (625 / 100000)"
  by code_simp

text \<open>
  C2, as amended.  When the pricing entry selected for the model has input price 1.25 and
  output price 10, the cost of 1000 prompt, 500 candidate and 100 thought tokens is
  \<open>(1000 * 1.25 + 500 * 10 + 100 * 10) / 1000000\<close>, which is 0.00725 and not 0.00625: the
  binary64 result of the code is the value nearest to 0.00725.  The thought tokens are
  billed at the output price, and the cached, tool and total counts, which the statement
  leaves free, have no part in it.
\<close>

theorem calculateModelCost_example:
  assumes "InputPriceShort (selectPricing tbl lower modelName) = f64 (125 / 100)"
    and "OutputPriceShort (selectPricing tbl lower modelName) = f64 10"
    and "TokenStats.Prompt tokens = 1000" and "Candidates tokens = 500"
    and "Thoughts tokens = 100"
  shows "calculateModelCost tbl lower modelName tokens
           = f64 ((1000 * (125 / 100) + 500 * 10 + 100 * 10) / 1000000)
       \<and> calculateModelCost tbl lower modelName tokens = f64 (725 / 100000)
       \<and> calculateModelCost tbl lower modelName tokens \<noteq> f64 (625 / 100000)"
proof -
  have "calculateModelCost tbl lower modelName tokens = f64 (29 / 4000)"
    using assms by (simp add: calculateModelCost_def Let_def cost_arith)
  then show ?thesis
    using f64_distinct by simp
qed

text \<open>The token counts of the statistics test under \<open>gemini-2.5-pro\<close>, with and without
  cached and tool tokens.\<close>

theorem calculateModelCost_example_witness:
  "calculateModelCost PricingTable asciiToLower ''gemini-2.5-pro'' testTokens = f64 (725 / 100000)
   \<and> calculateModelCost PricingTable asciiToLower ''gemini-2.5-pro''
        (testTokens\<lparr>Cached := 0, Tool := 0\<rparr>) = f64 (725 / 100000)"
  using calculateModelCost_example [of PricingTable asciiToLower "''gemini-2.5-pro''" testTokens]
    calculateModelCost_example [of PricingTable asciiToLower "''gemini-2.5-pro''"
      "testTokens\<lparr>Cached := 0, Tool := 0\<rparr>"]
  by (simp add: selectPricing_gemini_2_5_pro testTokens_def)

text \<open>C2 as stated fails: for \<open>gemini-2.5-pro\<close>, whose prices are 1.25 and 10, the cost of
  these tokens is not 0.00625.\<close>

theorem calculateModelCost_example_counterexample:
  "InputPriceShort (selectPricing PricingTable asciiToLower ''gemini-2.5-pro'') = f64 (125 / 100)
   \<and> OutputPriceShort (selectPricing PricingTable asciiToLower ''gemini-2.5-pro'') = f64 10
   \<and> TokenStats.Prompt testTokens = 1000 \<and> Candidates testTokens = 500
   \<and> Thoughts testTokens = 100
   \<and> calculateModelCost PricingTable asciiToLower ''gemini-2.5-pro'' testTokens
        \<noteq> f64 (625 / 100000)"
proof -
  have "calculateModelCost PricingTable asciiToLower ''gemini-2.5-pro'' testTokens
      = f64 (29 / 4000)"
    by (simp add: calculateModelCost_def Let_def selectPricing_gemini_2_5_pro testTokens_def
        cost_arith)
  then show ?thesis
    using f64_distinct by (simp add: selectPricing_gemini_2_5_pro testTokens_def)
qed

lemma map_of_priceFields:
  "map priceFields tbl' = map priceFields tbl \<Longrightarrow>
   map_option (\<lambda>p. (InputPriceShort p, OutputPriceShort p)) (map_of tbl' k)
     = map_option (\<lambda>p. (InputPriceShort p, OutputPriceShort p)) (map_of tbl k)"
proof (induction tbl arbitrary: tbl')
  case Nil
  then show ?case by simp
next
  case (Cons e tbl)
  then obtain e' rest where tbl': "tbl' = e' # rest"
    by (cases tbl') auto
  with Cons.prems have hd: "priceFields e' = priceFields e"
    and tl: "map priceFields rest = map priceFields tbl"
    by auto
  note ih = Cons.IH [OF tl]
  from hd ih tbl' show ?case
    by (cases e; cases e') (auto simp: priceFields_def)
qed

lemma partialMatch_priceFields:
  "map priceFields tbl' = map priceFields tbl \<Longrightarrow>
   map_option (\<lambda>p. (InputPriceShort p, OutputPriceShort p)) (partialMatch tbl' lower m)
     = map_option (\<lambda>p. (InputPriceShort p, OutputPriceShort p)) (partialMatch tbl lower m)"
proof (induction tbl arbitrary: tbl')
  case Nil
  then show ?case by (simp add: partialMatch_def)
next
  case (Cons e tbl)
  then obtain e' rest where tbl': "tbl' = e' # rest"
    by (cases tbl') auto
  with Cons.prems have hd: "priceFields e' = priceFields e"
    and tl: "map priceFields rest = map priceFields tbl"
    by auto
  note ih = Cons.IH [OF tl]
  from hd ih tbl' show ?case
    by (cases e; cases e') (auto simp: priceFields_def partialMatch_def)
qed

lemma selectPricing_priceFields:
  assumes "map priceFields tbl' = map priceFields tbl"
  shows "InputPriceShort (selectPricing tbl' lower m) = InputPriceShort (selectPricing tbl lower m)
       \<and> OutputPriceShort (selectPricing tbl' lower m)
           = OutputPriceShort (selectPricing tbl lower m)"
  using map_of_priceFields [OF assms, of m] partialMatch_priceFields [OF assms, of lower m]
  by (auto simp: selectPricing_def split: option.splits)

text \<open>
  C10.  For every model name and all token counts the cost is computed from the short-context
  input and output prices of the selected entry alone: it is the rounded sum of the three
  products with those two prices, and two pricing tables that hold the same keys in the same
  order with the same short-context prices give the same cost, whatever their long-context
  prices and thresholds are and however many prompt tokens there are.
\<close>

theorem calculateModelCost_short_prices_only:
  assumes "map priceFields tbl' = map priceFields tbl"
  shows "calculateModelCost tbl' lower modelName tokens
           = calculateModelCost tbl lower modelName tokens
       \<and> calculateModelCost tbl lower modelName tokens =
           fadd (fadd (fmul (fdiv (float64_of_int (TokenStats.Prompt tokens)) (f64 1000000))
                         (InputPriceShort (selectPricing tbl lower modelName)))
                      (fmul (fdiv (float64_of_int (Candidates tokens)) (f64 1000000))
                         (OutputPriceShort (selectPricing tbl lower modelName))))
                (fmul (fdiv (float64_of_int (Thoughts tokens)) (f64 1000000))
                   (OutputPriceShort (selectPricing tbl lower modelName)))"
  using selectPricing_priceFields [OF assms, of lower modelName]
  by (simp add: calculateModelCost_def Let_def)

lemma long_cost_arith:
  "fadd (fadd (fmul (fdiv (float64_of_int 300000) (f64 1000000)) (f64 (5 / 4)))
              (fmul (fdiv (float64_of_int 0) (f64 1000000)) (f64 10)))
        (fmul (fdiv (float64_of_int 0) (f64 1000000)) (f64 10)) = Fin (3 / 8)"
  by code_simp

lemma priceFields_withoutLongContext:
  "map priceFields (withoutLongContext tbl) = map priceFields tbl"
  by (induction tbl) (auto simp: withoutLongContext_def priceFields_def)

text \<open>300000 prompt tokens under \<open>gemini-2.5-pro\<close>, above its threshold of 200000, cost
  0.375 (the short-context price 1.25 per million), with the table of the source and with
  its long-context fields cleared.\<close>

theorem calculateModelCost_short_prices_only_witness:
  "LongContextThreshold (selectPricing PricingTable asciiToLower ''gemini-2.5-pro'')
      < TokenStats.Prompt longContextTokens
   \<and> calculateModelCost PricingTable asciiToLower ''gemini-2.5-pro'' longContextTokens
       = Fin (3 / 8)
   \<and> calculateModelCost (withoutLongContext PricingTable) asciiToLower ''gemini-2.5-pro''
        longContextTokens = Fin (3 / 8)"
proof -
  have "calculateModelCost PricingTable asciiToLower ''gemini-2.5-pro'' longContextTokens
      = Fin (3 / 8)"
    by (simp add: calculateModelCost_def Let_def selectPricing_gemini_2_5_pro
        longContextTokens_def long_cost_arith)
  then show ?thesis
    using calculateModelCost_short_prices_only [OF priceFields_withoutLongContext,
        of PricingTable asciiToLower "''gemini-2.5-pro''" longContextTokens]
    by (simp add: selectPricing_gemini_2_5_pro longContextTokens_def)
qed

section \<open>Parsing a single JSON document\<close>

lemma TrimSpace_empty: "TrimSpace [] = []"
  by (simp add: TrimSpace_def TrimRightSpace_def)

lemma TrimSpace_samples:
  "TrimSpace whitespaceOnly = []"
  "TrimSpace ''not json'' = ''not json''"
  "TrimSpace helloJSON = helloJSON"
  "TrimSpace errorJSON = errorJSON"
  by code_simp+

lemma Unmarshal_samples:
  "Unmarshal_CLIResponse ''not json'' = Inl SyntaxError"
  "Unmarshal_CLIResponse helloJSON
     = Inr \<lparr>CLIResponse.Response = ''Hello, World!'', CLIResponse.Stats = None, Error = None\<rparr>"
  "Unmarshal_CLIResponse errorJSON
     = Inr \<lparr>CLIResponse.Response = [], CLIResponse.Stats = None, Error = Some authError\<rparr>"
  by code_simp+

lemma samples_nonempty: "helloJSON \<noteq> []" "errorJSON \<noteq> []"
  by (simp_all add: helloJSON_def errorJSON_def)

lemma checkValid_not_json: "\<not> checkValid ''not json''"
  by code_simp

text \<open>
  C7.  \<open>ParseJSON\<close> fails with \<open>ErrOutputParsing\<close> for every input that is empty after
  trimming, for every input whose trimmed text is not valid JSON, and more generally
  whenever the decoder rejects the trimmed text; so it does for the empty string, for the
  white space of the test and for \<open>not json\<close>.  For
  \<open>{"response":"Hello, World!","stats":null}\<close> it succeeds with the response text
  \<open>Hello, World!\<close>.
\<close>

theorem ParseJSON_errors:
  "(TrimSpace output = [] \<longrightarrow> ParseJSON p output = Inl (ErrOutputParsing EmptyOutput))
   \<and> (TrimSpace output \<noteq> [] \<and> \<not> checkValid (TrimSpace output) \<longrightarrow>
        ParseJSON p output = Inl (ErrOutputParsing (JSONError SyntaxError)))
   \<and> (\<forall>err. TrimSpace output \<noteq> [] \<and> Unmarshal_CLIResponse (TrimSpace output) = Inl err \<longrightarrow>
        ParseJSON p output = Inl (ErrOutputParsing (JSONError err)))
   \<and> ParseJSON p [] = Inl (ErrOutputParsing EmptyOutput)
   \<and> ParseJSON p whitespaceOnly = Inl (ErrOutputParsing EmptyOutput)
   \<and> ParseJSON p ''not json'' = Inl (ErrOutputParsing (JSONError SyntaxError))
   \<and> (\<exists>response. ParseJSON p helloJSON = Inr response
        \<and> CLIResponse.Response response = ''Hello, World!'')"
proof -
  have empty: "TrimSpace output = [] \<longrightarrow> ParseJSON p output = Inl (ErrOutputParsing EmptyOutput)"
    by (simp add: ParseJSON_def)
  have invalid: "TrimSpace output \<noteq> [] \<and> \<not> checkValid (TrimSpace output) \<longrightarrow>
      ParseJSON p output = Inl (ErrOutputParsing (JSONError SyntaxError))"
    by (simp add: ParseJSON_def Unmarshal_CLIResponse_def checkValid_def)
  have failed: "\<forall>err. TrimSpace output \<noteq> [] \<and> Unmarshal_CLIResponse (TrimSpace output) = Inl err
      \<longrightarrow> ParseJSON p output = Inl (ErrOutputParsing (JSONError err))"
    by (simp add: ParseJSON_def)
  have e1: "ParseJSON p [] = Inl (ErrOutputParsing EmptyOutput)"
    by (simp add: ParseJSON_def TrimSpace_empty)
  have e2: "ParseJSON p whitespaceOnly = Inl (ErrOutputParsing EmptyOutput)"
    by (simp add: ParseJSON_def TrimSpace_samples)
  have e3: "ParseJSON p ''not json'' = Inl (ErrOutputParsing (JSONError SyntaxError))"
    by (simp add: ParseJSON_def TrimSpace_samples Unmarshal_samples)
  have e4: "ParseJSON p helloJSON
      = Inr \<lparr>CLIResponse.Response = ''Hello, World!'', CLIResponse.Stats = None, Error = None\<rparr>"
    by (simp add: ParseJSON_def TrimSpace_samples Unmarshal_samples samples_nonempty)
  from empty invalid failed e1 e2 e3 e4 show ?thesis
    by simp
qed

text \<open>The white space of the test is empty after trimming; \<open>not json\<close> is not, and is not
  valid JSON.\<close>

theorem ParseJSON_errors_witness:
  "TrimSpace whitespaceOnly = []
   \<and> ParseJSON (NewOutputParser False) whitespaceOnly = Inl (ErrOutputParsing EmptyOutput)
   \<and> TrimSpace ''not json'' \<noteq> [] \<and> \<not> checkValid (TrimSpace ''not json'')
   \<and> ParseJSON (NewOutputParser False) ''not json''
       = Inl (ErrOutputParsing (JSONError SyntaxError))"
  using ParseJSON_errors [of whitespaceOnly "NewOutputParser False"]
    ParseJSON_errors [of "''not json''" "NewOutputParser False"]
    TrimSpace_samples checkValid_not_json
  by simp

section \<open>Parsing a stream of events\<close>

lemma streamLines_nonblank:
  "streamLines lines st =
     foldl (\<lambda>st l. case Unmarshal_StreamEvent l of
                      Inl err \<Rightarrow> st
                    | Inr event \<Rightarrow> streamEvent event st)
       st (filter (\<lambda>l. l \<noteq> []) (map TrimSpace lines))"
  by (induction lines arbitrary: st) (auto simp: Let_def split: sum.splits)

lemma ParseStreamJSON_fold:
  "ParseStreamJSON p output =
     (case foldl (\<lambda>st l. case Unmarshal_StreamEvent l of
                            Inl err \<Rightarrow> st
                          | Inr event \<Rightarrow> streamEvent event st)
             ([], None) (nonBlankLines output) of
        (events, finalResponse) \<Rightarrow> (events, finalResponse, None))"
  by (simp add: ParseStreamJSON_def nonBlankLines_def streamLines_nonblank)

lemma foldl_all_fail:
  "\<forall>l \<in> set ls. \<exists>err. Unmarshal_StreamEvent l = Inl err \<Longrightarrow>
   foldl (\<lambda>st l. case Unmarshal_StreamEvent l of
                    Inl err \<Rightarrow> st
                  | Inr event \<Rightarrow> streamEvent event st)
     st ls = st"
  by (induction ls arbitrary: st) auto

text \<open>
  C9.  \<open>ParseStreamJSON\<close> returns for every input, and what it returns is a list of events,
  a response that may be absent, and no error.  When the decoder rejects every non-empty
  line, the list is empty and the response absent.
\<close>

theorem ParseStreamJSON_no_error:
  "(\<exists>events finalResponse. ParseStreamJSON p output = (events, finalResponse, None))
   \<and> ((\<forall>l \<in> set (nonBlankLines output). \<exists>err. Unmarshal_StreamEvent l = Inl err) \<longrightarrow>
        ParseStreamJSON p output = ([], None, None))"
proof -
  have "\<exists>events finalResponse. ParseStreamJSON p output = (events, finalResponse, None)"
    by (simp add: ParseStreamJSON_def split: prod.splits)
  moreover
  have "(\<forall>l \<in> set (nonBlankLines output). \<exists>err. Unmarshal_StreamEvent l = Inl err) \<longrightarrow>
      ParseStreamJSON p output = ([], None, None)"
    by (simp add: ParseStreamJSON_fold foldl_all_fail)
  ultimately show ?thesis
    by simp
qed

lemma noiseTranscript_lines: "nonBlankLines noiseTranscript = [''not json'', ''{\"type\":'']"
  by code_simp

lemma noiseTranscript_fail:
  "Unmarshal_StreamEvent ''not json'' = Inl SyntaxError"
  "Unmarshal_StreamEvent ''{\"type\":'' = Inl SyntaxError"
  by code_simp+

text \<open>A transcript of two broken lines and a blank one, parsed with debugging on.\<close>

theorem ParseStreamJSON_no_error_witness:
  "nonBlankLines noiseTranscript = [''not json'', ''{\"type\":'']
   \<and> Unmarshal_StreamEvent ''not json'' = Inl SyntaxError
   \<and> Unmarshal_StreamEvent ''{\"type\":'' = Inl SyntaxError
   \<and> ParseStreamJSON (NewOutputParser True) noiseTranscript = ([], None, None)"
  using ParseStreamJSON_no_error [of "NewOutputParser True" noiseTranscript]
  by (simp add: noiseTranscript_lines noiseTranscript_fail)

text \<open>
  C1, what the code does.  When the non-empty lines of the output are four and decode to an
  \<open>init\<close> event, a \<open>message\<close> of the user, a \<open>message\<close> of the assistant that is no delta,
  and a \<open>result\<close> event, in this order, \<open>ParseStreamJSON\<close> returns the four events in this
  order and a response with the statistics of the \<open>result\<close> event; but the text of the
  response is empty: the \<open>result\<close> branch stores a new response, and the text taken from the
  assistant's message before it is lost.  The claim asks for the content of that message.
\<close>

theorem ParseStreamJSON_result_after_message:
  assumes "nonBlankLines output = [l1, l2, l3, l4]"
    and "Unmarshal_StreamEvent l1 = Inr e1" and "Unmarshal_StreamEvent l2 = Inr e2"
    and "Unmarshal_StreamEvent l3 = Inr e3" and "Unmarshal_StreamEvent l4 = Inr e4"
    and "StreamEvent.Type e1 = ''init''"
    and "StreamEvent.Type e2 = ''message''" and "Role e2 = ''user''"
    and "StreamEvent.Type e3 = ''message''" and "Role e3 = ''assistant''" and "\<not> Delta e3"
    and "StreamEvent.Type e4 = ''result''"
  shows "ParseStreamJSON p output =
           ([e1, e2, e3, e4],
            Some \<lparr>CLIResponse.Response = [], CLIResponse.Stats = StreamEvent.Stats e4,
                  Error = None\<rparr>,
            None)"
  using assms by (simp add: ParseStreamJSON_fold streamEvent_def)

lemma testTranscript_lines:
  "nonBlankLines testTranscript = [initLine, userLine, assistantLine, resultLine]"
  by code_simp

lemma testTranscript_events:
  "Unmarshal_StreamEvent initLine = Inr initEvent"
  "Unmarshal_StreamEvent userLine = Inr userEvent"
  "Unmarshal_StreamEvent assistantLine = Inr assistantEvent"
  "Unmarshal_StreamEvent resultLine = Inr resultEvent"
  by code_simp+

text \<open>The transcript of \<open>TestParseStreamJSON\<close>: four events, the statistics of the last, and
  an empty text where the assistant had said \<open>Hi there!\<close>.\<close>

theorem ParseStreamJSON_result_after_message_witness:
  "ParseStreamJSON (NewOutputParser False) testTranscript =
     ([initEvent, userEvent, assistantEvent, resultEvent],
      Some \<lparr>CLIResponse.Response = [], CLIResponse.Stats = Some zero_CLIStats, Error = None\<rparr>,
      None)
   \<and> Content assistantEvent = ''Hi there!''"
  using ParseStreamJSON_result_after_message
    [OF testTranscript_lines testTranscript_events, of "NewOutputParser False"]
  by (simp add: initEvent_def userEvent_def assistantEvent_def resultEvent_def
      zero_StreamEvent_def)

section \<open>Execution\<close>

lemma streamEvent_no_error:
  "(\<forall>r. snd st = Some r \<longrightarrow> Error r = None) \<Longrightarrow>
   (\<forall>r. snd (streamEvent event st) = Some r \<longrightarrow> Error r = None)"
  by (cases st) (auto simp: streamEvent_def zero_CLIResponse_def split: option.splits)

lemma streamLines_no_error:
  "(\<forall>r. snd st = Some r \<longrightarrow> Error r = None) \<Longrightarrow>
   (\<forall>r. snd (streamLines lines st) = Some r \<longrightarrow> Error r = None)"
proof (induction lines arbitrary: st)
  case Nil
  then show ?case by simp
next
  case (Cons line lines)
  show ?case
  proof (cases "TrimSpace line = []")
    case True
    with Cons show ?thesis by simp
  next
    case False
    show ?thesis
    proof (cases "Unmarshal_StreamEvent (TrimSpace line)")
      case (Inl err)
      with False Cons show ?thesis by simp
    next
      case (Inr event)
      from Cons.prems have "\<forall>r. snd (streamEvent event st) = Some r \<longrightarrow> Error r = None"
        by (rule streamEvent_no_error)
      from Cons.IH [OF this] False Inr show ?thesis by simp
    qed
  qed
qed

lemma ParseStreamJSON_no_in_band_error:
  "ParseStreamJSON p raw = (events, Some r, e) \<Longrightarrow> Error r = None"
  using streamLines_no_error [of "([], None)" "SplitLines (TrimSpace raw)"]
  by (auto simp: ParseStreamJSON_def split: prod.splits)

lemma parseByFormat_in_band_error:
  assumes "parseByFormat c raw = Inr (Some response)" and "Error response = Some e"
  shows "OutputFormat c = ''json'' \<and> raw \<noteq> []"
proof (cases "OutputFormat c = ''json''")
  case True
  have "raw \<noteq> []"
  proof
    assume "raw = []"
    with True assms(1) show False
      by (simp add: parseByFormat_def ParseJSON_def TrimSpace_empty)
  qed
  with True show ?thesis by simp
next
  case False
  show ?thesis
  proof (cases "OutputFormat c = ''stream-json''")
    case True
    obtain events r perr
      where p: "ParseStreamJSON (NewOutputParser (Debug c)) raw = (events, r, perr)"
      by (cases "ParseStreamJSON (NewOutputParser (Debug c)) raw") auto
    with True False assms(1) have "r = Some response"
      by (auto simp: parseByFormat_def split: option.splits)
    with p have "Error response = None"
      using ParseStreamJSON_no_in_band_error by blast
    with assms(2) show ?thesis by simp
  next
    case notStream: False
    with False assms show ?thesis
      by (auto simp: parseByFormat_def ParseText_def)
  qed
qed

lemma errorJSON_parse:
  "ParseJSON p errorJSON
     = Inr \<lparr>CLIResponse.Response = [], CLIResponse.Stats = None, Error = Some authError\<rparr>"
  by (simp add: ParseJSON_def TrimSpace_samples Unmarshal_samples samples_nonempty)

lemma jsonConfig_format: "OutputFormat jsonConfig = ''json''"
  by (simp add: jsonConfig_def zeroConfig_def)

text \<open>
  C5.  Let \<open>out\<close> be what the run of the tool produced.  Whenever the parser selected by the
  output format turns the captured standard output into a response that carries an error
  record, \<open>Execute\<close> does not succeed.  Unless the run failed with the deadline exceeded
  (then \<open>Execute\<close> has returned the timeout error before any parsing), it returns the
  result, holding the captured output and the parsed response, together with
  \<open>ErrCLIExecution\<close> carrying the type and the message of the record.
\<close>

theorem Execute_in_band_error:
  assumes run: "out = RunGemini w (buildArgs c prompt) (buildEnv w c) (Target c)
                        (if stdinInput \<noteq> [] then Some stdinInput else None) (Timeout c)"
    and parsed: "parseByFormat c (stdout out) = Inr (Some response)"
    and inband: "Error response = Some e"
  shows "snd (Execute w c prompt stdinInput) \<noteq> None
       \<and> (\<not> (runErr out \<noteq> None \<and> deadlineExceeded out) \<longrightarrow>
            (\<exists>result. Execute w c prompt stdinInput =
                 (Some result, Some (ErrCLIExecution (CLIError.Type e @ '' - '' @ Message e)))
               \<and> RawOutput result = stdout out
               \<and> ExecutionResult.Response result = Some response))"
proof -
  from parseByFormat_in_band_error [OF parsed inband] have nonempty: "stdout out \<noteq> []"
    by simp
  have tail: "parseOutput c result =
      (Some (result\<lparr>ExecutionResult.Response := Some response\<rparr>),
       Some (ErrCLIExecution (CLIError.Type e @ '' - '' @ Message e)))"
    if "RawOutput result = stdout out" for result
    using that parsed inband by (simp add: parseOutput_def checkAPIError_def)
  show ?thesis
  proof (cases "runErr out")
    case None
    with run tail show ?thesis
      by (simp add: Execute_def Let_def)
  next
    case (Some err)
    show ?thesis
    proof (cases "deadlineExceeded out")
      case True
      with Some run show ?thesis
        by (simp add: Execute_def Let_def)
    next
      case False
      with Some run nonempty tail show ?thesis
        by (cases err) (simp_all add: Execute_def Let_def)
    qed
  qed
qed

text \<open>The tool exits with status 1 after printing the response of the test \<open>response with
  error\<close>: the result comes back with the parsed response and the exit code, and with it
  the error \<open>AuthError - Invalid API key\<close>.\<close>

theorem Execute_in_band_error_witness:
  "Execute failedWithOutputWorld jsonConfig ''Review this code'' [] =
     (Some \<lparr>RawOutput = errorJSON,
            ExecutionResult.Response =
              Some \<lparr>CLIResponse.Response = [], CLIResponse.Stats = None,
                    Error = Some authError\<rparr>,
            ExitCode = 1\<rparr>,
      Some (ErrCLIExecution ''AuthError - Invalid API key''))"
proof -
  let ?out = "\<lparr>runErr = Some (ExitError 1 ''exit status 1''), deadlineExceeded = False,
               stdout = errorJSON, stderr = []\<rparr>"
  have run: "?out = RunGemini failedWithOutputWorld (buildArgs jsonConfig ''Review this code'')
      (buildEnv failedWithOutputWorld jsonConfig) (Target jsonConfig)
      (if ([]::string) \<noteq> [] then Some [] else None) (Timeout jsonConfig)"
    by (simp add: failedWithOutputWorld_def)
  have parsed: "parseByFormat jsonConfig (stdout ?out)
      = Inr (Some \<lparr>CLIResponse.Response = [], CLIResponse.Stats = None,
                   Error = Some authError\<rparr>)"
    by (simp add: parseByFormat_def jsonConfig_format errorJSON_parse)
  have inband:
    "Error \<lparr>CLIResponse.Response = [], CLIResponse.Stats = None, Error = Some authError\<rparr>
      = Some authError"
    by simp
  have code: "Execute failedWithOutputWorld jsonConfig ''Review this code'' [] =
      parseOutput jsonConfig
        \<lparr>RawOutput = errorJSON, ExecutionResult.Response = None, ExitCode = 1\<rparr>"
    by (simp add: Execute_def Let_def failedWithOutputWorld_def errorJSON_def)
  from Execute_in_band_error [OF run parsed inband] code show ?thesis
    by (auto simp: authError_def parseOutput_def checkAPIError_def jsonConfig_format
        parseByFormat_def errorJSON_parse)
qed

text \<open>
  C6.  Let \<open>out\<close> be what the run of the tool produced, and let the tool have exited with a
  non-zero status without the deadline being exceeded (a run that exceeds the deadline is
  the timeout failure, decided first).  If nothing was captured on the standard output,
  \<open>Execute\<close> returns no result and \<open>ErrCLIExecution\<close> carrying the text of the exit error
  and the captured standard error; the parsers have no part in this.  If something was
  captured, \<open>Execute\<close> is the parsing stage applied to it under the configured format: a
  parse error is returned with the result, and a parsed response is stored in the result,
  which also holds the exit code, and checked for an error record.
\<close>

theorem Execute_nonzero_exit:
  assumes run: "out = RunGemini w (buildArgs c prompt) (buildEnv w c) (Target c)
                        (if stdinInput \<noteq> [] then Some stdinInput else None) (Timeout c)"
    and exit: "runErr out = Some (ExitError code text)" and nonzero: "code \<noteq> 0"
    and intime: "\<not> deadlineExceeded out"
  shows "(stdout out = [] \<longrightarrow>
            Execute w c prompt stdinInput =
              (None, Some (ErrCLIExecution (text @ '' (stderr: '' @ stderr out @ '')''))))
       \<and> (stdout out \<noteq> [] \<longrightarrow>
            Execute w c prompt stdinInput =
              (case parseByFormat c (stdout out) of
                 Inl parseErr \<Rightarrow>
                   (Some \<lparr>RawOutput = stdout out, ExecutionResult.Response = None,
                          ExitCode = code\<rparr>,
                    Some parseErr)
               | Inr response \<Rightarrow>
                   checkAPIError
                     \<lparr>RawOutput = stdout out, ExecutionResult.Response = response,
                      ExitCode = code\<rparr>))"
  using assms by (simp add: Execute_def Let_def parseOutput_def errorText_def split: sum.splits)

text \<open>Exit status 1 with an empty standard output and \<open>quota exceeded\<close> on the standard
  error; exit status 1 with a JSON response on the standard output.\<close>

theorem Execute_nonzero_exit_witness:
  "Execute failedSilentWorld jsonConfig ''Review this code'' [] =
     (None, Some (ErrCLIExecution ''exit status 1 (stderr: quota exceeded)''))
   \<and> Execute failedWithOutputWorld jsonConfig ''Review this code'' [] =
       checkAPIError
         \<lparr>RawOutput = errorJSON,
          ExecutionResult.Response =
            Some \<lparr>CLIResponse.Response = [], CLIResponse.Stats = None,
                  Error = Some authError\<rparr>,
          ExitCode = 1\<rparr>"
proof -
  let ?silent = "\<lparr>runErr = Some (ExitError 1 ''exit status 1''), deadlineExceeded = False,
                  stdout = [], stderr = ''quota exceeded''\<rparr>"
  let ?loud = "\<lparr>runErr = Some (ExitError 1 ''exit status 1''), deadlineExceeded = False,
                stdout = errorJSON, stderr = []\<rparr>"
  have run1: "?silent = RunGemini failedSilentWorld (buildArgs jsonConfig ''Review this code'')
      (buildEnv failedSilentWorld jsonConfig) (Target jsonConfig)
      (if ([]::string) \<noteq> [] then Some [] else None) (Timeout jsonConfig)"
    by (simp add: failedSilentWorld_def)
  have run2: "?loud = RunGemini failedWithOutputWorld (buildArgs jsonConfig ''Review this code'')
      (buildEnv failedWithOutputWorld jsonConfig) (Target jsonConfig)
      (if ([]::string) \<noteq> [] then Some [] else None) (Timeout jsonConfig)"
    by (simp add: failedWithOutputWorld_def)
  from Execute_nonzero_exit [OF run1, of 1 "''exit status 1''"]
    Execute_nonzero_exit [OF run2, of 1 "''exit status 1''"] samples_nonempty
  show ?thesis
    by (simp add: parseByFormat_def jsonConfig_format errorJSON_parse)
qed

end
